theory Spec2Isabelle
  imports Complex_Main
begin

section \<open>Values of the JavaScript runtime\<close>

text \<open>
  A value that reaches a \<^verbatim>\<open>catch\<close> clause: any value can be thrown, also \<^verbatim>\<open>undefined\<close>
  and \<^verbatim>\<open>null\<close>. The handlers of \<^verbatim>\<open>crc-start.ts\<close> read three properties of it
  (\<^verbatim>\<open>message\<close>, \<^verbatim>\<open>name\<close>, \<^verbatim>\<open>code\<close>) and convert it to a string. A thrown string has
  none of the three properties (a thrown number or boolean has none either, and goes the
  way of its string). For an object each property is \<open>Some t\<close> when it holds the string
  \<open>t\<close> and \<open>None\<close> when it is absent or not a string.
\<close>

datatype js_thrown =
    ThrownUndefined
  | ThrownNull
  | ThrownString string
  | ThrownError (ename: "string option") (emessage: "string option") (ecode: "string option")

text \<open>A property read on \<^verbatim>\<open>undefined\<close> or \<^verbatim>\<open>null\<close> throws a \<^verbatim>\<open>TypeError\<close>.\<close>

fun nullish :: "js_thrown \<Rightarrow> bool" where
  "nullish ThrownUndefined = True"
| "nullish ThrownNull = True"
| "nullish (ThrownString t) = False"
| "nullish (ThrownError n m c) = False"

text \<open>
  The three properties, as strings. They are read only on values that are not \<open>nullish\<close>:
  \<^verbatim>\<open>startCrc\<close> tests that first, since there the read itself throws.
\<close>

fun message :: "js_thrown \<Rightarrow> string option" where
  "message (ThrownError n m c) = m"
| "message err = None"

fun name :: "js_thrown \<Rightarrow> string option" where
  "name (ThrownError n m c) = n"
| "name err = None"

fun code :: "js_thrown \<Rightarrow> string option" where
  "code (ThrownError n m c) = c"
| "code err = None"

text \<open>\<^verbatim>\<open>new Error(msg)\<close> and the \<^verbatim>\<open>TypeError\<close> of a property read on \<^verbatim>\<open>null\<close> or
  \<^verbatim>\<open>undefined\<close> (the message text is the engine's; V8's wording is used).\<close>

definition new_Error :: "string \<Rightarrow> js_thrown" where
  "new_Error msg = ThrownError (Some ''Error'') (Some msg) None"

definition TypeError :: "string \<Rightarrow> string \<Rightarrow> js_thrown" where
  "TypeError base prop =
     ThrownError (Some ''TypeError'')
       (Some (''Cannot read properties of '' @ base @ '' (reading '' @ [CHR 0x27] @ prop @ [CHR 0x27] @ '')''))
       None"

text \<open>String conversion of a caught value, as the template literal \<^verbatim>\<open>`${err}`\<close> does it:
  a string is itself, an error object goes through \<^verbatim>\<open>Error.prototype.toString\<close>, and
  \<^verbatim>\<open>undefined\<close> and \<^verbatim>\<open>null\<close> give their names.\<close>

fun toString :: "js_thrown \<Rightarrow> string" where
  "toString ThrownUndefined = ''undefined''"
| "toString ThrownNull = ''null''"
| "toString (ThrownString t) = t"
| "toString (ThrownError n m c) =
     (let nm = (case n of None \<Rightarrow> ''Error'' | Some t \<Rightarrow> t);
          msg = (case m of None \<Rightarrow> [] | Some t \<Rightarrow> t)
      in if nm = [] then msg else if msg = [] then nm else nm @ '': '' @ msg)"

text \<open>\<^verbatim>\<open>String.prototype.startsWith\<close>: \<open>startsWith t p\<close> is \<^verbatim>\<open>t.startsWith(p)\<close>.\<close>

definition startsWith :: "string \<Rightarrow> string \<Rightarrow> bool" where
  "startsWith t p = (take (length p) t = p)"

subsection \<open>JSON values\<close>

text \<open>
  The value \<^verbatim>\<open>JSON.parse\<close> returns. A number is an IEEE double; the program only tests
  numbers for truthiness. The properties of an object are kept in the order in which
  \<^verbatim>\<open>for ... in\<close> and \<^verbatim>\<open>Object.keys\<close> enumerate them, with distinct keys.
\<close>

datatype js_number = Finite rat | NegZero | PosInfinity | NegInfinity | NaN

datatype json =
    JNull
  | JBool bool
  | JNumber js_number
  | JString string
  | JArray "json list"
  | JObject "(string \<times> json) list"

fun number_truthy :: "js_number \<Rightarrow> bool" where
  "number_truthy (Finite q) = (q \<noteq> 0)"
| "number_truthy NegZero = False"
| "number_truthy PosInfinity = True"
| "number_truthy NegInfinity = True"
| "number_truthy NaN = False"

text \<open>Truthiness (\<^verbatim>\<open>ToBoolean\<close>); \<open>None\<close> stands for \<^verbatim>\<open>undefined\<close>.\<close>

fun truthy :: "json option \<Rightarrow> bool" where
  "truthy None = False"
| "truthy (Some JNull) = False"
| "truthy (Some (JBool b)) = b"
| "truthy (Some (JNumber n)) = number_truthy n"
| "truthy (Some (JString t)) = (t \<noteq> [])"
| "truthy (Some (JArray xs)) = True"
| "truthy (Some (JObject fs)) = True"

text \<open>Decimal text of an array index.\<close>

fun digit :: "nat \<Rightarrow> char" where
  "digit n = (''0123456789'' ! (n mod 10))"

function show_nat :: "nat \<Rightarrow> string" where
  "show_nat n = (if n < 10 then [digit n] else show_nat (n div 10) @ [digit n])"
  by pat_completeness auto
termination
  by (relation "measure id") auto

text \<open>
  The own enumerable properties of a value, in enumeration order: the fields of an object,
  the elements of an array and the characters of a string under their indices; numbers,
  booleans and \<^verbatim>\<open>null\<close> have none.
\<close>

fun own_properties :: "json \<Rightarrow> (string \<times> json) list" where
  "own_properties (JObject fs) = fs"
| "own_properties (JArray xs) = zip (map show_nat [0..<length xs]) xs"
| "own_properties (JString t) = zip (map show_nat [0..<length t]) (map (\<lambda>c. JString [c]) t)"
| "own_properties v = []"

definition keys :: "json \<Rightarrow> string list" where
  "keys v = map fst (own_properties v)"

text \<open>\<^verbatim>\<open>Object.keys(v)\<close>, which throws on \<^verbatim>\<open>undefined\<close> and \<^verbatim>\<open>null\<close>.\<close>

fun Object_keys :: "json option \<Rightarrow> js_thrown + string list" where
  "Object_keys None =
     Inl (ThrownError (Some ''TypeError'') (Some ''Cannot convert undefined or null to object'') None)"
| "Object_keys (Some JNull) =
     Inl (ThrownError (Some ''TypeError'') (Some ''Cannot convert undefined or null to object'') None)"
| "Object_keys (Some v) = Inr (keys v)"

text \<open>
  The property read \<^verbatim>\<open>v.p\<close> and \<^verbatim>\<open>v[p]\<close>. On \<^verbatim>\<open>undefined\<close> and \<^verbatim>\<open>null\<close> it throws a
  \<^verbatim>\<open>TypeError\<close>. Otherwise it is the own property of that name, or \<^verbatim>\<open>undefined\<close>: the
  names the program reads (\<^verbatim>\<open>auths\<close>, \<^verbatim>\<open>auth\<close>, \<^verbatim>\<open>credsStore\<close> and enumerated own
  keys) are not defined on the prototypes of objects, arrays or primitives.
\<close>

fun get_property :: "json option \<Rightarrow> string \<Rightarrow> js_thrown + json option" where
  "get_property None p = Inl (TypeError ''undefined'' p)"
| "get_property (Some JNull) p = Inl (TypeError ''null'' p)"
| "get_property (Some v) p = Inr (map_of (own_properties v) p)"

section \<open>The extension's state and its collaborators\<close>

text \<open>\<^verbatim>\<open>extensionApi.ProviderStatus\<close>, the status the host shows for the provider.\<close>

datatype ProviderStatus =
    NotInstalled | Installed | Configured | Ready | Started | Stopped | Starting | Stopping
  | Error | Unknown

text \<open>An argument handed to a logging or message call: a text or a caught value.\<close>

datatype js_arg = Str string | Exn js_thrown

text \<open>
  Every call that leaves the two modules is recorded, in order, as an event: calls of the
  host API (provider, window, telemetry, logger, console) and calls of the extension's
  other modules (\<^verbatim>\<open>crc-setup\<close>, \<^verbatim>\<open>crc-status\<close>, \<^verbatim>\<open>daemon-commander\<close>,
  \<^verbatim>\<open>log-provider\<close>, \<^verbatim>\<open>crc-stop\<close>, the command modules and \<^verbatim>\<open>preferences\<close>).
  A connection handle is the number of the registration that returned it.
\<close>

datatype event =
    LogUsage string
  | SetSetupRunning bool
  | SetUpCrc bool
  | NeedSetup
  | LoggerError js_thrown
  | ConsoleError js_arg
  | ConsoleLog string js_thrown
  | UpdateStatus ProviderStatus
  | UpdateVersion string
  | StartSendingLogs
  | CommanderStart
  | CommanderPullSecretStore string
  | CommanderConfigGet
  | ShowErrorMessage js_arg
  | ShowInformationMessage string
  | ShowInputBox
  | Dispose nat
  | RegisterKubernetesProviderConnection string nat
  | RegisterContainerProviderConnection string nat
  | StopCrc
  | CrcStatusInitialize
  | StartStatusUpdate
  | AddCommands
  | SyncPreferences

text \<open>
  The mutable state: the module variables of \<^verbatim>\<open>extension.ts\<close> (\<^verbatim>\<open>connectionDisposable\<close>,
  \<^verbatim>\<open>crcVersion\<close>), the flag \<^verbatim>\<open>isNeedSetup\<close> of \<^verbatim>\<open>crc-setup\<close>, the setup-running flag
  and the daemon status held by \<^verbatim>\<open>crcStatus\<close>, what the host holds (the provider status,
  the Kubernetes connections and the container connections that are registered and not
  disposed, the number of registrations made, the subscriptions of the extension context),
  the calls of \<^verbatim>\<open>presetChanged\<close> that were made without \<^verbatim>\<open>await\<close> and are suspended at
  their \<^verbatim>\<open>commander.configGet()\<close> (each with the answer it will resume with), and the
  trace of events so far.
\<close>

record state =
  isNeedSetup :: bool
  setupRunning :: bool
  CrcStatus :: string
  crcVersion :: "string option"
  connectionDisposable :: "nat option"
  providerStatus :: ProviderStatus
  kubernetesConnections :: "nat set"
  containerConnections :: "nat set"
  registrations :: nat
  subscriptions :: "nat list"
  pending :: "(js_thrown + string) list"
  events :: "event list"

text \<open>
  The collaborators, as parameters. What an asynchronous operation of another module or of
  the daemon answers may depend on everything that happened before, so each answer is a
  function of the trace at the moment of the call: \<open>Inl e\<close> when the operation throws
  (rejects with) \<open>e\<close>, \<open>Inr v\<close> when it returns (resolves to) \<open>v\<close>. \<^verbatim>\<open>JSON.parse\<close> and
  \<^verbatim>\<open>JSON.stringify\<close> are the runtime's; \<^verbatim>\<open>productName\<close>, \<^verbatim>\<open>getPresetLabel\<close> and
  \<^verbatim>\<open>isWindows\<close> are those of \<^verbatim>\<open>util\<close>; \<^verbatim>\<open>homedir\<close>, \<^verbatim>\<open>path_resolve\<close> and
  \<^verbatim>\<open>existsSync\<close> are Node's \<^verbatim>\<open>os\<close>, \<^verbatim>\<open>path\<close> and \<^verbatim>\<open>fs\<close>.
  \<open>answered h\<close> tells whether, when the trace is \<open>h\<close>, the daemon has answered the
  \<^verbatim>\<open>configGet\<close> calls of the suspended \<^verbatim>\<open>presetChanged\<close> calls.
  Calls of the host API, of the console and of the logger do not throw.
\<close>

record env =
  productName :: string
  getPresetLabel :: "string \<Rightarrow> string"
  isWindows :: bool
  homedir :: string
  path_resolve :: "string \<Rightarrow> string \<Rightarrow> string"
  existsSync :: "event list \<Rightarrow> string \<Rightarrow> bool"
  JSON_parse :: "string \<Rightarrow> js_thrown + json"
  JSON_stringify :: "json \<Rightarrow> string"
  setUpCrc_answer :: "event list \<Rightarrow> js_thrown + bool"
  needSetup_answer :: "event list \<Rightarrow> js_thrown + bool"
  start_answer :: "event list \<Rightarrow> js_thrown + string"
  showInputBox_answer :: "event list \<Rightarrow> string option"
  pullSecretStore_answer :: "event list \<Rightarrow> js_thrown option"
  configGet_answer :: "event list \<Rightarrow> js_thrown + string"
  stopCrc_answer :: "event list \<Rightarrow> js_thrown option"
  status_answer :: "event list \<Rightarrow> string"
  answered :: "event list \<Rightarrow> bool"

definition emit :: "event \<Rightarrow> state \<Rightarrow> state" where
  "emit e s = s\<lparr>events := events s @ [e]\<rparr>"

text \<open>\<^verbatim>\<open>provider.updateStatus(st)\<close>.\<close>

definition updateStatus :: "ProviderStatus \<Rightarrow> state \<Rightarrow> state" where
  "updateStatus st s = emit (UpdateStatus st) (s\<lparr>providerStatus := st\<rparr>)"

text \<open>\<^verbatim>\<open>crcStatus.setSetupRunning(b)\<close>.\<close>

definition setSetupRunning :: "bool \<Rightarrow> state \<Rightarrow> state" where
  "setSetupRunning b s = emit (SetSetupRunning b) (s\<lparr>setupRunning := b\<rparr>)"

text \<open>\<^verbatim>\<open>await setUpCrc(logger, askForUserInput)\<close>: it throws, or returns whether setup finished.\<close>

definition setUpCrc :: "env \<Rightarrow> bool \<Rightarrow> state \<Rightarrow> (js_thrown + bool) \<times> state" where
  "setUpCrc env askForUserInput s = (setUpCrc_answer env (events s), emit (SetUpCrc askForUserInput) s)"

text \<open>
  Modelled from the spec: \<^verbatim>\<open>needSetup\<close> of \<^verbatim>\<open>crc-setup\<close>, which is not among the sources.
  It queries whether first-time setup has been completed and updates the flag
  \<^verbatim>\<open>isNeedSetup\<close> with the answer; the query may throw, and then the flag is unchanged.
\<close>

definition needSetup :: "env \<Rightarrow> state \<Rightarrow> js_thrown option \<times> state" where
  "needSetup env s =
     (case needSetup_answer env (events s) of
        Inl e \<Rightarrow> (Some e, emit NeedSetup s)
      | Inr b \<Rightarrow> (None, emit NeedSetup (s\<lparr>isNeedSetup := b\<rparr>)))"

text \<open>\<^verbatim>\<open>await commander.start()\<close>: it throws, or returns a result whose \<^verbatim>\<open>Status\<close> is the string.\<close>

definition commander_start :: "env \<Rightarrow> state \<Rightarrow> (js_thrown + string) \<times> state" where
  "commander_start env s = (start_answer env (events s), emit CommanderStart s)"

definition commander_pullSecretStore :: "env \<Rightarrow> string \<Rightarrow> state \<Rightarrow> js_thrown option \<times> state" where
  "commander_pullSecretStore env secret s =
     (pullSecretStore_answer env (events s), emit (CommanderPullSecretStore secret) s)"

definition commander_configGet :: "env \<Rightarrow> state \<Rightarrow> (js_thrown + string) \<times> state" where
  "commander_configGet env s = (configGet_answer env (events s), emit CommanderConfigGet s)"

text \<open>\<^verbatim>\<open>await extensionApi.window.showInputBox(...)\<close>: \<open>None\<close> is \<^verbatim>\<open>undefined\<close>, the prompt
  cancelled.\<close>

definition showInputBox :: "env \<Rightarrow> state \<Rightarrow> string option \<times> state" where
  "showInputBox env s = (showInputBox_answer env (events s), emit ShowInputBox s)"

section \<open>crc-start.ts\<close>

definition missingPullSecret :: string where
  "missingPullSecret = ''Failed to ask for pull secret''"

subsection \<open>askAndStorePullSecret\<close>

text \<open>The loop of lines 105 to 110 over the enumerated keys of \<^verbatim>\<open>s.auths\<close>; \<open>Some e\<close> when
  it throws \<open>e\<close>.\<close>

fun check_auths :: "env \<Rightarrow> json \<Rightarrow> json option \<Rightarrow> string list \<Rightarrow> js_thrown option" where
  "check_auths env s auths [] = None"
| \<open>check_auths env s auths (a # as) =
     (case get_property auths a of
        Inl e \<Rightarrow> Some e
      | Inr aut \<Rightarrow>
          (case get_property aut ''auth'' of
             Inl e \<Rightarrow> Some e
           | Inr auth \<Rightarrow>
               if truthy auth then check_auths env s auths as
               else (case get_property aut ''credsStore'' of
                       Inl e \<Rightarrow> Some e
                     | Inr credsStore \<Rightarrow>
                         if truthy credsStore then check_auths env s auths as
                         else Some (ThrownString (JSON_stringify env s @
                                '' JSON-object requires either 'auth' or 'credsStore' field'')))))\<close>

text \<open>The body of the first \<^verbatim>\<open>try\<close> (lines 103 to 113): \<open>Some e\<close> is the value the
  \<^verbatim>\<open>catch\<close> of line 114 receives, \<open>None\<close> means the block completed.\<close>

definition validate :: "env \<Rightarrow> string \<Rightarrow> js_thrown option" where
  \<open>validate env pullSecret =
     (case JSON_parse env pullSecret of
        Inl e \<Rightarrow> Some e
      | Inr s \<Rightarrow>
          (case get_property (Some s) ''auths'' of
             Inl e \<Rightarrow> Some e
           | Inr auths \<Rightarrow>
               if truthy auths then
                 (case Object_keys auths of
                    Inl e \<Rightarrow> Some e
                  | Inr ks \<Rightarrow>
                      if length ks > 0 then check_auths env s auths ks
                      else Some (ThrownString ''missing "auths" JSON-object field''))
               else Some (ThrownString ''missing "auths" JSON-object field'')))\<close>

definition invalid_message :: "js_thrown \<Rightarrow> string" where
  "invalid_message err =
     ''Start failed, pull secret is not valid. Please start again:'' @ [CHR 0x0A] @ '' '' @
     [CHR 0x27] @ toString err @ [CHR 0x27]"

definition askAndStorePullSecret :: "env \<Rightarrow> state \<Rightarrow> bool \<times> state" where
  "askAndStorePullSecret env s =
     (case showInputBox env s of
        (None, s1) \<Rightarrow> (False, s1)
      | (Some pullSecret, s1) \<Rightarrow>
          if pullSecret = [] then (False, s1)
          else (case validate env pullSecret of
                  Some err \<Rightarrow> (False, emit (ShowErrorMessage (Str (invalid_message err))) s1)
                | None \<Rightarrow>
                    (case commander_pullSecretStore env pullSecret s1 of
                       (None, s2) \<Rightarrow> (True, s2)
                     | (Some error, s2) \<Rightarrow>
                         (False, emit (LoggerError error) (emit (ConsoleError (Exn error)) s2)))))"

subsection \<open>startCrc\<close>

text \<open>
  The setup block, lines 45 to 57. The result is \<open>True\<close> when the block leaves
  \<^verbatim>\<open>startCrc\<close> through the \<^verbatim>\<open>return\<close> of line 53; the \<^verbatim>\<open>finally\<close> clause runs on both
  ways out of the inner \<^verbatim>\<open>try\<close>. The value \<^verbatim>\<open>setUpCrc\<close> returns is not looked at.
\<close>

definition startCrc_setup :: "env \<Rightarrow> state \<Rightarrow> bool \<times> state" where
  "startCrc_setup env s =
     (if isNeedSetup s then
        (let s1 = setSetupRunning True s;
             (finished, s2) = setUpCrc env True s1;
             (thrown, s3) = (case finished of Inl e \<Rightarrow> (Some e, s2) | Inr b \<Rightarrow> needSetup env s2)
         in case thrown of
              Some error \<Rightarrow>
                (True, setSetupRunning False (updateStatus Stopped (emit (LoggerError error) s3)))
            | None \<Rightarrow> (False, setSetupRunning False s3))
      else (False, s))"

text \<open>How the outer \<^verbatim>\<open>try\<close> block (lines 43 to 66) ends: with a \<^verbatim>\<open>return\<close> (of
  \<^verbatim>\<open>undefined\<close>, written \<open>None\<close>, or of a boolean), by reaching its end, or with a throw.\<close>

datatype completion = Return "bool option" | Normal | Throw js_thrown

definition startCrc_try :: "env \<Rightarrow> state \<Rightarrow> completion \<times> state" where
  "startCrc_try env s =
     (case startCrc_setup env s of
        (True, s1) \<Rightarrow> (Return None, s1)
      | (False, s1) \<Rightarrow>
          (case commander_start env (emit StartSendingLogs s1) of
             (Inl err, s2) \<Rightarrow> (Throw err, s2)
           | (Inr Status, s2) \<Rightarrow>
               if Status = ''Running'' then (Return (Some True), updateStatus Started s2)
               else (Normal,
                     emit (ShowErrorMessage (Str (''Error during starting '' @ productName env @ '': '' @ Status)))
                       (updateStatus Error s2))))"

text \<open>
  \<^verbatim>\<open>startCrc\<close> calls itself after a pull secret has been stored, with no bound on the
  number of attempts, so it is a partial function: \<open>None\<close> is a run that never returns.
  A run that returns gives \<open>Inl e\<close> when \<^verbatim>\<open>startCrc\<close> throws \<open>e\<close> to its caller and
  \<open>Inr v\<close> when it returns \<open>v\<close> (\<open>None\<close> being \<^verbatim>\<open>undefined\<close>), with the state it leaves.
  The \<^verbatim>\<open>catch\<close> clause begins by reading \<^verbatim>\<open>err.message\<close> (line 68); when the caught
  value is \<^verbatim>\<open>undefined\<close> or \<^verbatim>\<open>null\<close> that read throws a \<^verbatim>\<open>TypeError\<close> out of the
  clause, and so out of \<^verbatim>\<open>startCrc\<close>.
\<close>

partial_function (option) startCrc :: "env \<Rightarrow> state \<Rightarrow> ((js_thrown + bool option) \<times> state) option" where
  "startCrc env s =
     (case startCrc_try env (emit (LogUsage ''crc.start'') s) of
        (Return v, s1) \<Rightarrow> Some (Inr v, s1)
      | (Normal, s1) \<Rightarrow> Some (Inr (Some False), s1)
      | (Throw err, s1) \<Rightarrow>
          if nullish err then Some (Inl (TypeError (toString err) ''message''), s1)
          else if (case message err of None \<Rightarrow> False | Some m \<Rightarrow> startsWith m missingPullSecret) then
            (case askAndStorePullSecret env s1 of
               (stored, s2) \<Rightarrow>
                 if stored then startCrc env s2
                 else Some (Inl (new_Error ''Could not start without pullsecret!''), s2))
          else if message err \<noteq> None \<and> name err = Some ''RequestError'' \<and> code err = Some ''ECONNRESET''
          then Some (Inr (Some True), updateStatus Started s1)
          else Some (Inr (Some False),
                     updateStatus Stopped
                       (emit (ConsoleError (Exn err)) (emit (ShowErrorMessage (Exn err)) s1))))"

section \<open>extension.ts\<close>

text \<open>\<^verbatim>\<open>disposable.dispose()\<close> of a connection handle: the host drops the connection.\<close>

definition dispose :: "nat \<Rightarrow> state \<Rightarrow> state" where
  "dispose h s =
     emit (Dispose h)
       (s\<lparr>kubernetesConnections := kubernetesConnections s - {h},
          containerConnections := containerConnections s - {h}\<rparr>)"

subsection \<open>readPreset and updateProviderVersionWithPreset\<close>

text \<open>What \<^verbatim>\<open>readPreset\<close> does once \<^verbatim>\<open>commander.configGet()\<close> has answered (lines 335 to
  340): it returns the preset of the configuration, or logs the error and returns the
  default.\<close>

fun readPreset_resume :: "js_thrown + string \<Rightarrow> state \<Rightarrow> string \<times> state" where
  "readPreset_resume (Inr preset) s = (preset, s)"
| "readPreset_resume (Inl err) s = (''openshift'', emit (ConsoleLog ''error while getting preset'' err) s)"

definition readPreset :: "env \<Rightarrow> state \<Rightarrow> string \<times> state" where
  "readPreset env s =
     (case commander_configGet env s of (answer, s1) \<Rightarrow> readPreset_resume answer s1)"

text \<open>
  \<^verbatim>\<open>crcVersion\<close> is declared \<^verbatim>\<open>CrcVersion | undefined\<close>; the state holds the
  \<^verbatim>\<open>version\<close> string of the object, or \<open>None\<close> for \<^verbatim>\<open>undefined\<close>, on which the read
  of \<^verbatim>\<open>crcVersion.version\<close> throws.
\<close>

definition updateProviderVersionWithPreset :: "env \<Rightarrow> string \<Rightarrow> state \<Rightarrow> js_thrown option \<times> state" where
  "updateProviderVersionWithPreset env preset s =
     (case crcVersion s of
        None \<Rightarrow> (Some (TypeError ''undefined'' ''version''), s)
      | Some version \<Rightarrow>
          (None, emit (UpdateVersion (version @ '' ('' @ getPresetLabel env preset @ '')'')) s))"

subsection \<open>The two registrations\<close>

definition socketPath :: "env \<Rightarrow> string" where
  "socketPath env =
     (if isWindows env then ''//./pipe/crc-podman''
      else path_resolve env (homedir env) ''.crc/machines/crc/docker.sock'')"

definition registerPodmanConnection :: "env \<Rightarrow> state \<Rightarrow> state" where
  "registerPodmanConnection env s =
     (if existsSync env (events s) (socketPath env) then
        (let disposable = registrations s;
             s1 = emit (RegisterContainerProviderConnection (socketPath env) disposable)
                    (s\<lparr>registrations := Suc disposable,
                       containerConnections := insert disposable (containerConnections s)\<rparr>)
         in s1\<lparr>subscriptions := subscriptions s1 @ [disposable]\<rparr>)
      else emit (ConsoleError (Str (''Could not find crc podman socket at '' @ socketPath env))) s)"

text \<open>\<^verbatim>\<open>registerOpenShiftLocalCluster\<close> has no \<^verbatim>\<open>await\<close>: although declared \<^verbatim>\<open>async\<close>,
  it runs to its end when called.\<close>

definition registerOpenShiftLocalCluster :: "string \<Rightarrow> state \<Rightarrow> state" where
  "registerOpenShiftLocalCluster nm s =
     (let disposable = registrations s;
          s1 = emit (RegisterKubernetesProviderConnection nm disposable)
                 (s\<lparr>registrations := Suc disposable,
                    kubernetesConnections := insert disposable (kubernetesConnections s),
                    connectionDisposable := Some disposable\<rparr>)
      in s1\<lparr>subscriptions := subscriptions s1 @ [disposable]\<rparr>)"

subsection \<open>presetChanged\<close>

definition podmanNotice :: string where
  "podmanNotice =
     ''Currently we do not support the Podman preset of OpenShift Local. Please use preference to change this:'' @
     [CHR 0x0A, CHR 0x0A] @ ''Settings > Preferences > Red Hat OpenShift Local > Preset''"

text \<open>Lines 362 to 365.\<close>

definition disposeConnection :: "state \<Rightarrow> state" where
  "disposeConnection s =
     (case connectionDisposable s of
        None \<Rightarrow> s
      | Some h \<Rightarrow> (dispose h s)\<lparr>connectionDisposable := None\<rparr>)"

text \<open>\<^verbatim>\<open>presetChanged\<close> from line 360 on, once \<^verbatim>\<open>readPreset\<close> has returned the preset.\<close>

definition presetChanged_resume :: "env \<Rightarrow> string \<Rightarrow> state \<Rightarrow> (js_thrown + unit) \<times> state" where
  "presetChanged_resume env preset s1 =
     (case updateProviderVersionWithPreset env preset s1 of
        (Some e, s2) \<Rightarrow> (Inl e, s2)
      | (None, s2) \<Rightarrow>
          (let s3 = disposeConnection s2
           in if preset = ''podman'' then
                (Inr (), registerPodmanConnection env (emit (ShowInformationMessage podmanNotice) s3))
              else if preset = ''openshift'' \<or> preset = ''microshift'' then
                (Inr (), registerOpenShiftLocalCluster (getPresetLabel env preset) s3)
              else (Inr (), s3)))"

definition presetChanged :: "env \<Rightarrow> state \<Rightarrow> (js_thrown + unit) \<times> state" where
  "presetChanged env s =
     (case readPreset env s of (preset, s1) \<Rightarrow> presetChanged_resume env preset s1)"

subsection \<open>The lifecycle callbacks\<close>

text \<open>
  \<^verbatim>\<open>stopCrc\<close> of \<^verbatim>\<open>crc-stop\<close> is not among the sources: the call is an event, and it
  throws or returns as the collaborator answers.
\<close>

definition stopCrc :: "env \<Rightarrow> state \<Rightarrow> (js_thrown + unit) \<times> state" where
  "stopCrc env s =
     (case stopCrc_answer env (events s) of
        Some e \<Rightarrow> (Inl e, emit StopCrc s)
      | None \<Rightarrow> (Inr (), emit StopCrc s))"

text \<open>The callbacks await \<^verbatim>\<open>startCrc\<close> and drop the value it returns.\<close>

definition awaited :: "((js_thrown + 'a) \<times> state) option \<Rightarrow> ((js_thrown + unit) \<times> state) option" where
  "awaited r = map_option (\<lambda>(v, s). (case v of Inl e \<Rightarrow> Inl e | Inr x \<Rightarrow> Inr (), s)) r"

text \<open>\<^verbatim>\<open>providerLifecycle\<close>, lines 111 to 123.\<close>

definition providerLifecycle_start :: "env \<Rightarrow> state \<Rightarrow> ((js_thrown + unit) \<times> state) option" where
  "providerLifecycle_start env s = awaited (startCrc env (updateStatus Starting s))"

definition providerLifecycle_stop :: "env \<Rightarrow> state \<Rightarrow> (js_thrown + unit) \<times> state" where
  "providerLifecycle_stop env s = stopCrc env (updateStatus Stopping s)"

text \<open>\<^verbatim>\<open>kubernetesProviderConnection.lifecycle\<close>, lines 305 to 317.\<close>

definition connectionLifecycle_start :: "env \<Rightarrow> state \<Rightarrow> ((js_thrown + unit) \<times> state) option" where
  "connectionLifecycle_start env s = awaited (startCrc env (updateStatus Starting s))"

definition connectionLifecycle_stop :: "env \<Rightarrow> state \<Rightarrow> (js_thrown + unit) \<times> state" where
  "connectionLifecycle_stop env s = stopCrc env (updateStatus Stopping s)"

subsection \<open>createCrcVm\<close>

text \<open>
  \<^verbatim>\<open>presetChanged(...)\<close> called without \<^verbatim>\<open>await\<close>. The call runs as far as its first
  suspension, which is the \<^verbatim>\<open>await commander.configGet()\<close> inside \<^verbatim>\<open>readPreset\<close>: the
  request to the daemon is issued, and nothing else happens at the place of the call. The
  caller goes on; the rest of \<^verbatim>\<open>presetChanged\<close> is suspended with the answer it will get.
\<close>

definition presetChanged_detached :: "env \<Rightarrow> state \<Rightarrow> state" where
  "presetChanged_detached env s =
     (case commander_configGet env s of (answer, s1) \<Rightarrow> s1\<lparr>pending := pending s1 @ [answer]\<rparr>)"

text \<open>
  A suspended call resumes when the daemon has answered: \<^verbatim>\<open>readPreset\<close> returns and
  \<^verbatim>\<open>presetChanged\<close> runs from line 360 to its end. Nobody sees whether it throws.
\<close>

definition resume_detached :: "env \<Rightarrow> js_thrown + string \<Rightarrow> state \<Rightarrow> state" where
  "resume_detached env answer s =
     (case readPreset_resume answer s of (preset, s1) \<Rightarrow> snd (presetChanged_resume env preset s1))"

text \<open>
  What happens to the suspended calls while a caller is itself suspended at an
  \<^verbatim>\<open>await\<close> that takes time: if the daemon has answered, they resume, in the order in
  which they were made; otherwise they stay suspended.
\<close>

definition run_pending :: "env \<Rightarrow> state \<Rightarrow> state" where
  "run_pending env s =
     (if answered env (events s)
      then foldl (\<lambda>s' answer. resume_detached env answer s') (s\<lparr>pending := []\<rparr>) (pending s)
      else s)"

text \<open>
  Modelled from the spec: \<^verbatim>\<open>crcStatus.initialize\<close> and \<^verbatim>\<open>crcStatus.startStatusUpdate\<close>
  of \<^verbatim>\<open>crc-status\<close>, which is not among the sources. \<^verbatim>\<open>initialize\<close> performs one status
  fetch from the daemon and populates the status; \<^verbatim>\<open>startStatusUpdate\<close> starts the poll.
\<close>

definition connectToCrc :: "env \<Rightarrow> state \<Rightarrow> state" where
  "connectToCrc env s =
     emit StartStatusUpdate (emit CrcStatusInitialize (s\<lparr>CrcStatus := status_answer env (events s)\<rparr>))"

definition addCommands :: "state \<Rightarrow> state" where
  "addCommands s = emit AddCommands s"

definition initCommandsAndPreferences :: "state \<Rightarrow> state" where
  "initCommandsAndPreferences s = emit SyncPreferences (addCommands s)"

definition initializeCrc :: "env \<Rightarrow> state \<Rightarrow> (js_thrown + bool) \<times> state" where
  "initializeCrc env s =
     (case setUpCrc env False s of
        (Inl e, s1) \<Rightarrow> (Inl e, s1)
      | (Inr hasSetupFinished, s1) \<Rightarrow>
          if hasSetupFinished then
            (case needSetup env s1 of
               (Some e, s2) \<Rightarrow> (Inl e, s2)
             | (None, s2) \<Rightarrow>
                 (Inr hasSetupFinished,
                  initCommandsAndPreferences (presetChanged_detached env (connectToCrc env s2))))
          else (Inr hasSetupFinished, s1))"

text \<open>
  \<^verbatim>\<open>createCrcVm\<close> is suspended for a time at \<^verbatim>\<open>await startCrc(...)\<close>, whose run waits for
  the daemon and possibly for the user. A \<^verbatim>\<open>presetChanged\<close> that \<^verbatim>\<open>initializeCrc\<close> left
  suspended may resume meanwhile and set \<^verbatim>\<open>connectionDisposable\<close>, which line 208 reads.
  The events of such a resumption are recorded after those of \<^verbatim>\<open>startCrc\<close>; in the code
  they may fall between them.
\<close>

definition createCrcVm :: "env \<Rightarrow> state \<Rightarrow> ((js_thrown + unit) \<times> state) option" where
  "createCrcVm env s =
     (if CrcStatus s \<noteq> ''No Cluster'' \<and> CrcStatus s \<noteq> ''Need Setup'' then Some (Inr (), s)
      else
        (case (if CrcStatus s = ''Need Setup'' then initializeCrc env s else (Inr True, s)) of
           (Inl e, s1) \<Rightarrow> Some (Inl e, s1)
         | (Inr initResult, s1) \<Rightarrow>
             if \<not> initResult then Some (Inl (new_Error (productName env @ '' not initialized.'')), s1)
             else
               (case startCrc env s1 of
                  None \<Rightarrow> None
                | Some (r, s2) \<Rightarrow>
                    (let s3 = run_pending env s2
                     in case r of
                          Inl e \<Rightarrow> Some (Inl e, s3)
                        | Inr hasStarted \<Rightarrow>
                            if connectionDisposable s3 = None \<and> hasStarted = Some True
                            then Some (Inr (), presetChanged_detached env (addCommands s3))
                            else Some (Inr (), s3)))))"

section \<open>Notions of the specification\<close>

text \<open>
  The pull secret of the specification: a JSON document of the shape
  \<^verbatim>\<open>{ auths: { [registry]: { auth?: string, credsStore?: string } } }\<close> in which
  \<^verbatim>\<open>auths\<close> is non-empty and every entry has at least one of \<^verbatim>\<open>auth\<close> or
  \<^verbatim>\<open>credsStore\<close>.
\<close>

definition is_string :: "json option \<Rightarrow> bool" where
  "is_string x = (case x of Some (JString t) \<Rightarrow> True | _ \<Rightarrow> False)"

definition PullSecret_entry :: "json \<Rightarrow> bool" where
  "PullSecret_entry entry =
     (case entry of
        JObject props \<Rightarrow> is_string (map_of props ''auth'') \<or> is_string (map_of props ''credsStore'')
      | _ \<Rightarrow> False)"

definition PullSecret_invariant :: "json \<Rightarrow> bool" where
  "PullSecret_invariant v =
     (case v of
        JObject props \<Rightarrow>
          (case map_of props ''auths'' of
             Some (JObject auths) \<Rightarrow> auths \<noteq> [] \<and> list_all (\<lambda>(registry, entry). PullSecret_entry entry) auths
           | _ \<Rightarrow> False)
      | _ \<Rightarrow> False)"

text \<open>
  What the validation of \<^verbatim>\<open>askAndStorePullSecret\<close> asks of the parsed value, which is
  less: its \<^verbatim>\<open>auths\<close> property is truthy and has at least one own enumerable property
  (an array has them as an object does), and the value of each of these properties has a
  truthy \<^verbatim>\<open>auth\<close> or a truthy \<^verbatim>\<open>credsStore\<close> (of any type).
\<close>

definition passes_validation :: "json \<Rightarrow> bool" where
  "passes_validation v =
     (case map_of (own_properties v) ''auths'' of
        None \<Rightarrow> False
      | Some auths \<Rightarrow>
          truthy (Some auths) \<and> keys auths \<noteq> [] \<and>
          list_all (\<lambda>a. case map_of (own_properties auths) a of
                           None \<Rightarrow> False
                         | Some aut \<Rightarrow> truthy (map_of (own_properties aut) ''auth'') \<or>
                                       truthy (map_of (own_properties aut) ''credsStore''))
                   (keys auths))"

section \<open>Example runs\<close>

text \<open>
  A concrete set of collaborators and a concrete state, on which the theorems below are
  instantiated: the daemon starts the cluster at once, setup is not needed, no podman
  socket exists, and \<^verbatim>\<open>JSON.parse\<close> is given on the texts the examples use. The other
  collaborators differ from it in the answers named.
\<close>

definition example_secret :: string where
  \<open>example_secret = ''{"auths":{"registry.io":{"auth":"xxx"}}}''\<close>

definition array_secret :: string where
  \<open>array_secret = ''{"auths":[{"auth":true}]}''\<close>

definition example_parse :: "string \<Rightarrow> js_thrown + json" where
  \<open>example_parse t =
     (if t = ''{}'' then Inr (JObject [])
      else if t = ''{"auths":{}}'' then Inr (JObject [(''auths'', JObject [])])
      else if t = ''{"auths":{"r":{}}}'' then Inr (JObject [(''auths'', JObject [(''r'', JObject [])])])
      else if t = example_secret
        then Inr (JObject [(''auths'', JObject [(''registry.io'', JObject [(''auth'', JString ''xxx'')])])])
      else if t = array_secret
        then Inr (JObject [(''auths'', JArray [JObject [(''auth'', JBool True)]])])
      else Inl (ThrownError (Some ''SyntaxError'') (Some ''Unexpected token'') None))\<close>

definition example_stringify :: "json \<Rightarrow> string" where
  \<open>example_stringify v =
     (if v = JObject [(''auths'', JObject [(''r'', JObject [])])] then ''{"auths":{"r":{}}}'' else ''{}'')\<close>

definition example_env :: env where
  "example_env =
     \<lparr> productName = ''OpenShift Local'',
       getPresetLabel = (\<lambda>p. p),
       isWindows = False,
       homedir = ''/home/user'',
       path_resolve = (\<lambda>a b. a @ ''/'' @ b),
       existsSync = (\<lambda>h p. False),
       JSON_parse = example_parse,
       JSON_stringify = example_stringify,
       setUpCrc_answer = (\<lambda>h. Inr True),
       needSetup_answer = (\<lambda>h. Inr False),
       start_answer = (\<lambda>h. Inr ''Running''),
       showInputBox_answer = (\<lambda>h. None),
       pullSecretStore_answer = (\<lambda>h. None),
       configGet_answer = (\<lambda>h. Inr ''openshift''),
       stopCrc_answer = (\<lambda>h. None),
       status_answer = (\<lambda>h. ''Stopped''),
       answered = (\<lambda>h. True) \<rparr>"

definition example_state :: state where
  "example_state =
     \<lparr> isNeedSetup = False, setupRunning = False, CrcStatus = ''Stopped'',
       crcVersion = Some ''2.18.0'', connectionDisposable = None, providerStatus = Installed,
       kubernetesConnections = {}, containerConnections = {}, registrations = 0,
       subscriptions = [], pending = [], events = [] \<rparr>"

definition missing_secret_error :: js_thrown where
  "missing_secret_error =
     ThrownError (Some ''Error'') (Some ''Failed to ask for pull secret: no terminal'') None"

definition connection_reset_error :: js_thrown where
  "connection_reset_error =
     ThrownError (Some ''RequestError'') (Some ''read ECONNRESET'') (Some ''ECONNRESET'')"

definition cancel_env :: env where
  "cancel_env = example_env\<lparr>start_answer := (\<lambda>h. Inl missing_secret_error)\<rparr>"

definition retry_env :: env where
  "retry_env = example_env
     \<lparr>start_answer := (\<lambda>h. if CommanderPullSecretStore example_secret \<in> set h then Inr ''Running''
                             else Inl missing_secret_error),
      showInputBox_answer := (\<lambda>h. Some example_secret)\<rparr>"

definition insisting_env :: env where
  "insisting_env = example_env
     \<lparr>start_answer := (\<lambda>h. Inl missing_secret_error),
      showInputBox_answer := (\<lambda>h. Some example_secret)\<rparr>"

definition reset_env :: env where
  "reset_env = example_env\<lparr>start_answer := (\<lambda>h. Inl connection_reset_error)\<rparr>"

definition refused_env :: env where
  "refused_env = example_env
     \<lparr>start_answer := (\<lambda>h. Inl (ThrownError (Some ''RequestError'') (Some ''connect ECONNREFUSED'') (Some ''ECONNREFUSED'')))\<rparr>"

definition undefined_env :: env where
  "undefined_env = example_env\<lparr>start_answer := (\<lambda>h. Inl ThrownUndefined)\<rparr>"

definition podman_env :: env where
  "podman_env = example_env\<lparr>configGet_answer := (\<lambda>h. Inr ''podman'')\<rparr>"

definition podman_socket_env :: env where
  "podman_socket_env = example_env
     \<lparr>existsSync := (\<lambda>h p. True), configGet_answer := (\<lambda>h. Inr ''podman'')\<rparr>"

definition switch_env :: env where
  "switch_env = example_env
     \<lparr>existsSync := (\<lambda>h p. True),
      configGet_answer := (\<lambda>h. if CommanderConfigGet \<in> set h then Inr ''openshift'' else Inr ''podman'')\<rparr>"


section \<open>Auxiliary facts\<close>

lemmas prim_defs = emit_def updateStatus_def setSetupRunning_def setUpCrc_def needSetup_def
  commander_start_def commander_pullSecretStore_def commander_configGet_def showInputBox_def

lemma startCrc_setup_events:
  "\<exists>evs. events (snd (startCrc_setup env s)) = events s @ evs \<and> CommanderStart \<notin> set evs"
  by (auto simp: startCrc_setup_def prim_defs Let_def split: sum.splits option.splits prod.splits)

lemma askAndStorePullSecret_events:
  "\<exists>evs. events (snd (askAndStorePullSecret env s)) = events s @ evs \<and> CommanderStart \<notin> set evs"
  by (auto simp: askAndStorePullSecret_def prim_defs split: sum.splits option.splits prod.splits)

lemma startCrc_try_throw:
  assumes su: "startCrc_setup env (emit (LogUsage ''crc.start'') s) = (False, s1)"
      and answer: "start_answer env (events s1 @ [StartSendingLogs]) = Inl err"
  shows "startCrc_try env (emit (LogUsage ''crc.start'') s) =
           (Throw err, emit CommanderStart (emit StartSendingLogs s1))"
  using su answer by (simp add: startCrc_try_def commander_start_def emit_def)

lemma startCrc_returns:
  assumes su: "startCrc_setup env (emit (LogUsage ''crc.start'') s) = (False, s1)"
      and answer: "start_answer env (events s1 @ [StartSendingLogs]) = Inr Status"
  shows "startCrc env s = Some
     (if Status = ''Running''
      then (Inr (Some True), updateStatus Started (emit CommanderStart (emit StartSendingLogs s1)))
      else (Inr (Some False),
            emit (ShowErrorMessage (Str (''Error during starting '' @ productName env @ '': '' @ Status)))
              (updateStatus Error (emit CommanderStart (emit StartSendingLogs s1)))))"
proof -
  have tr: "startCrc_try env (emit (LogUsage ''crc.start'') s) =
     (if Status = ''Running''
      then (Return (Some True), updateStatus Started (emit CommanderStart (emit StartSendingLogs s1)))
      else (Normal,
            emit (ShowErrorMessage (Str (''Error during starting '' @ productName env @ '': '' @ Status)))
              (updateStatus Error (emit CommanderStart (emit StartSendingLogs s1)))))"
    using su answer by (simp add: startCrc_try_def commander_start_def emit_def)
  show ?thesis
    by (subst startCrc.simps, simp only: tr, simp)
qed

lemma askAndStorePullSecret_stored_iff:
  "fst (askAndStorePullSecret env s) \<longleftrightarrow>
     (\<exists>secret. showInputBox_answer env (events s) = Some secret \<and> secret \<noteq> [] \<and>
        validate env secret = None \<and>
        pullSecretStore_answer env (events s @ [ShowInputBox]) = None)"
  by (auto simp: askAndStorePullSecret_def prim_defs split: option.splits)

lemma startCrc_try_events:
  "\<exists>evs. events (snd (startCrc_try env s)) = events s @ evs"
  using startCrc_setup_events [of env s]
  by (auto simp: startCrc_try_def prim_defs split: prod.splits sum.splits bool.splits)

lemma startCrc_try_Throw:
  assumes "startCrc_try env s = (Throw err, s')"
  shows "\<exists>s1. start_answer env (events s1) = Inl err \<and> s' = emit CommanderStart s1"
  using assms
  by (auto simp: startCrc_try_def commander_start_def split: prod.splits sum.splits bool.splits if_splits)

lemma message_not_nullish: "message err = Some m \<Longrightarrow> \<not> nullish err"
  by (cases err) auto

lemma startCrc_events:
  assumes "startCrc env s = Some (r, s')"
  shows "\<exists>evs. events s' = events s @ LogUsage ''crc.start'' # evs"
proof -
  have "\<exists>evs. events (snd (r, s')) = events s @ LogUsage ''crc.start'' # evs"
  proof (rule startCrc.raw_induct [where P = "\<lambda>env s y. \<exists>evs. events (snd y) = events s @ LogUsage ''crc.start'' # evs", OF _ assms], goal_cases)
    case (1 f env s y)
    obtain c s1 where tr: "startCrc_try env (emit (LogUsage ''crc.start'') s) = (c, s1)"
      by (cases "startCrc_try env (emit (LogUsage ''crc.start'') s)")
    obtain evs1 where e1: "events s1 = events s @ LogUsage ''crc.start'' # evs1"
      using startCrc_try_events [of env "emit (LogUsage ''crc.start'') s"] tr by (auto simp: emit_def)
    obtain stored s2 where ask: "askAndStorePullSecret env s1 = (stored, s2)"
      by (cases "askAndStorePullSecret env s1")
    obtain evs2 where e2: "events s2 = events s1 @ evs2"
      using askAndStorePullSecret_events [of env s1] ask by auto
    show ?case
    proof (cases c)
      case (Return v)
      then show ?thesis using 1(2) tr e1 by auto
    next
      case Normal
      then show ?thesis using 1(2) tr e1 by auto
    next
      case (Throw err)
      show ?thesis
      proof (cases "nullish err")
        case True
        then show ?thesis using 1(2) tr Throw e1 by auto
      next
        case nn: False
        show ?thesis
        proof (cases "case message err of None \<Rightarrow> False | Some m \<Rightarrow> startsWith m missingPullSecret")
          case True
          show ?thesis
          proof (cases stored)
            case st: True
            have "f env s2 = Some y" using 1(2) tr Throw ask nn True st by simp
            from 1(1) [OF this] obtain evs where "events (snd y) = events s2 @ LogUsage ''crc.start'' # evs"
              by auto
            then show ?thesis using e1 e2 by simp
          next
            case st: False
            show ?thesis using 1(2) tr Throw ask e1 e2 nn True st by auto
          qed
        next
          case False
          then show ?thesis using 1(2) tr Throw e1 nn by (auto simp: prim_defs split: if_splits)
        qed
      qed
    qed
  qed
  then show ?thesis by simp
qed

text \<open>
  The two ways in which \<^verbatim>\<open>startCrc\<close> throws to its caller: the error of line 76, after
  the daemon reported the missing pull secret and none was stored; and the
  \<^verbatim>\<open>TypeError\<close> of line 68, after the daemon call threw \<^verbatim>\<open>undefined\<close> or \<^verbatim>\<open>null\<close>.
\<close>

lemma startCrc_thrown:
  assumes "startCrc env s = Some (Inl e, s')"
  shows "(e = new_Error ''Could not start without pullsecret!'' \<and>
          (\<exists>s1 err m. start_answer env (events s1) = Inl err \<and> message err = Some m \<and>
             startsWith m missingPullSecret \<and>
             askAndStorePullSecret env (emit CommanderStart s1) = (False, s'))) \<or>
         (\<exists>s1 err. start_answer env (events s1) = Inl err \<and> nullish err \<and>
             e = TypeError (toString err) ''message'' \<and> s' = emit CommanderStart s1)"
proof -
  define P where "P = (\<lambda>env (s::state) (y :: (js_thrown + bool option) \<times> state).
      \<forall>e s'. y = (Inl e, s') \<longrightarrow>
        (e = new_Error ''Could not start without pullsecret!'' \<and>
          (\<exists>s1 err m. start_answer env (events s1) = Inl err \<and> message err = Some m \<and>
             startsWith m missingPullSecret \<and>
             askAndStorePullSecret env (emit CommanderStart s1) = (False, s'))) \<or>
         (\<exists>s1 err. start_answer env (events s1) = Inl err \<and> nullish err \<and>
             e = TypeError (toString err) ''message'' \<and> s' = emit CommanderStart s1))"
  have "P env s (Inl e, s')"
  proof (rule startCrc.raw_induct [where P = P, OF _ assms], unfold P_def, goal_cases)
    case (1 f env s y)
    obtain c s1 where tr: "startCrc_try env (emit (LogUsage ''crc.start'') s) = (c, s1)"
      by (cases "startCrc_try env (emit (LogUsage ''crc.start'') s)")
    obtain stored s2 where ask: "askAndStorePullSecret env s1 = (stored, s2)"
      by (cases "askAndStorePullSecret env s1")
    show ?case
    proof (cases c)
      case (Return v)
      then show ?thesis using 1(2) tr by auto
    next
      case Normal
      then show ?thesis using 1(2) tr by auto
    next
      case (Throw err)
      obtain s0 where s0: "start_answer env (events s0) = Inl err" "s1 = emit CommanderStart s0"
        using startCrc_try_Throw tr Throw by blast
      show ?thesis
      proof (cases "nullish err")
        case True
        then have "y = (Inl (TypeError (toString err) ''message''), s1)"
          using 1(2) tr Throw by simp
        then show ?thesis using s0 True by auto
      next
        case nn: False
        show ?thesis
        proof (cases "case message err of None \<Rightarrow> False | Some m \<Rightarrow> startsWith m missingPullSecret")
          case True
          then obtain m where m: "message err = Some m" "startsWith m missingPullSecret"
            by (auto split: option.splits)
          show ?thesis
          proof (cases stored)
            case st: True
            then have "f env s2 = Some y" using 1(2) tr Throw ask m nn by simp
            from 1(1) [OF this] show ?thesis .
          next
            case st: False
            then have "y = (Inl (new_Error ''Could not start without pullsecret!''), s2)"
              using 1(2) tr Throw ask m nn by simp
            then show ?thesis using s0 m ask st by auto
          qed
        next
          case False
          then show ?thesis using 1(2) tr Throw nn by (auto split: if_splits)
        qed
      qed
    qed
  qed
  then show ?thesis by (simp add: P_def)
qed

lemma validate_example_secret: "JSON_parse env = example_parse \<Longrightarrow> validate env example_secret = None"
  by (simp add: validate_def example_parse_def example_secret_def keys_def)

lemma cancel_run:
  "startCrc cancel_env example_state =
     Some (Inl (new_Error ''Could not start without pullsecret!''),
           example_state\<lparr>events := [LogUsage ''crc.start'', StartSendingLogs, CommanderStart, ShowInputBox]\<rparr>)"
proof -
  let ?s1 = "emit (LogUsage ''crc.start'') example_state"
  have su: "startCrc_setup cancel_env ?s1 = (False, ?s1)"
    by (simp add: startCrc_setup_def example_state_def emit_def)
  have ans: "start_answer cancel_env (events ?s1 @ [StartSendingLogs]) = Inl missing_secret_error"
    by (simp add: cancel_env_def example_env_def)
  have m: "(case message missing_secret_error of None \<Rightarrow> False | Some m \<Rightarrow> startsWith m missingPullSecret)"
    by (simp add: missing_secret_error_def startsWith_def missingPullSecret_def)
  have ask: "askAndStorePullSecret cancel_env (emit CommanderStart (emit StartSendingLogs ?s1)) =
      (False, example_state\<lparr>events := [LogUsage ''crc.start'', StartSendingLogs, CommanderStart, ShowInputBox]\<rparr>)"
    by (simp add: askAndStorePullSecret_def showInputBox_def cancel_env_def example_env_def
          example_state_def emit_def)
  show ?thesis
  proof -
    have nn: "\<not> nullish missing_secret_error"
      by (simp add: missing_secret_error_def)
    show ?thesis
      by (subst startCrc.simps, simp only: startCrc_try_throw [OF su ans], simp add: m ask nn)
  qed
qed

lemma example_run:
  "startCrc example_env (updateStatus Starting example_state) =
     Some (Inr (Some True),
           example_state\<lparr>providerStatus := Started,
             events := [UpdateStatus Starting, LogUsage ''crc.start'', StartSendingLogs, CommanderStart,
                        UpdateStatus Started]\<rparr>)"
proof -
  let ?s1 = "emit (LogUsage ''crc.start'') (updateStatus Starting example_state)"
  have su: "startCrc_setup example_env ?s1 = (False, ?s1)"
    by (simp add: startCrc_setup_def example_state_def prim_defs)
  have ans: "start_answer example_env (events ?s1 @ [StartSendingLogs]) = Inr ''Running''"
    by (simp add: example_env_def)
  show ?thesis
    using startCrc_returns [OF su ans] by (simp add: example_state_def prim_defs)
qed

lemma awaited_Some:
  "awaited r = Some (v, s') \<Longrightarrow> \<exists>w. r = Some (w, s')"
  by (auto simp: awaited_def split: prod.splits)

lemma startCrc_setup_passes:
  "\<not> fst (startCrc_setup env s) \<longleftrightarrow>
     \<not> isNeedSetup s \<or>
     (\<exists>b b'. setUpCrc_answer env (events s @ [SetSetupRunning True]) = Inr b \<and>
             needSetup_answer env (events s @ [SetSetupRunning True, SetUpCrc True]) = Inr b')"
  by (auto simp: startCrc_setup_def prim_defs Let_def split: sum.splits option.splits prod.splits)

text \<open>
  A run of \<^verbatim>\<open>startCrc\<close> need not return: while the daemon keeps reporting the missing pull
  secret and the user keeps entering a secret that is stored, \<^verbatim>\<open>startCrc\<close> keeps calling
  itself.
\<close>

lemma startCrc_may_not_return: "startCrc insisting_env s = None"
proof -
  have "env \<noteq> insisting_env" if "startCrc env s = Some y" for env s y
  proof (rule startCrc.raw_induct [where P = "\<lambda>env s y. env \<noteq> insisting_env", OF _ that], goal_cases)
    case (1 f env s y)
    show ?case
    proof
      assume env: "env = insisting_env"
      obtain b s1 where su: "startCrc_setup env (emit (LogUsage ''crc.start'') s) = (b, s1)"
        by (cases "startCrc_setup env (emit (LogUsage ''crc.start'') s)")
      have "\<not> fst (startCrc_setup env (emit (LogUsage ''crc.start'') s))"
        unfolding startCrc_setup_passes by (auto simp: env insisting_env_def example_env_def)
      then have b: "b = False" using su by simp
      let ?s2 = "emit CommanderStart (emit StartSendingLogs s1)"
      have tr: "startCrc_try env (emit (LogUsage ''crc.start'') s) = (Throw missing_secret_error, ?s2)"
      proof (rule startCrc_try_throw)
        show "startCrc_setup env (emit (LogUsage ''crc.start'') s) = (False, s1)"
          using su b by simp
        show "start_answer env (events s1 @ [StartSendingLogs]) = Inl missing_secret_error"
          by (simp add: env insisting_env_def example_env_def)
      qed
      have m: "case message missing_secret_error of None \<Rightarrow> False | Some m \<Rightarrow> startsWith m missingPullSecret"
        by (simp add: missing_secret_error_def startsWith_def missingPullSecret_def)
      have v: "validate env example_secret = None"
        by (rule validate_example_secret) (simp add: env insisting_env_def example_env_def)
      have ne: "example_secret \<noteq> []" by (simp add: example_secret_def)
      have inp: "showInputBox_answer env h = Some example_secret" for h
        by (simp add: env insisting_env_def example_env_def)
      have st: "pullSecretStore_answer env h = None" for h
        by (simp add: env insisting_env_def example_env_def)
      have "fst (askAndStorePullSecret env ?s2)"
        by (simp add: askAndStorePullSecret_def showInputBox_def commander_pullSecretStore_def inp st v ne)
      then obtain s3 where "askAndStorePullSecret env ?s2 = (True, s3)"
        by (cases "askAndStorePullSecret env ?s2") auto
      moreover have "\<not> nullish missing_secret_error"
        by (simp add: missing_secret_error_def)
      ultimately have "f env s3 = Some y" using 1(2) tr m by simp
      from 1(1) [OF this] env show False by simp
    qed
  qed
  then show ?thesis by (cases "startCrc insisting_env s") auto
qed


section \<open>Properties of askAndStorePullSecret\<close>

lemma get_property_Some: "w \<noteq> JNull \<Longrightarrow> get_property (Some w) p = Inr (map_of (own_properties w) p)"
  by (cases w) auto

lemma Object_keys_Some: "w \<noteq> JNull \<Longrightarrow> Object_keys (Some w) = Inr (keys w)"
  by (cases w) auto

lemma get_property_aut:
  "(case get_property aut ''auth'' of
      Inl e \<Rightarrow> False
    | Inr auth \<Rightarrow> truthy auth \<or>
        (case get_property aut ''credsStore'' of Inl e \<Rightarrow> False | Inr credsStore \<Rightarrow> truthy credsStore)) \<longleftrightarrow>
   (case aut of
      None \<Rightarrow> False
    | Some v \<Rightarrow> truthy (map_of (own_properties v) ''auth'') \<or> truthy (map_of (own_properties v) ''credsStore''))"
proof (cases aut)
  case None
  then show ?thesis by simp
next
  case (Some v)
  then show ?thesis by (cases "v = JNull") (simp_all add: get_property_Some)
qed

text \<open>The loop of lines 105 to 110 ends without a throw exactly when every enumerated
  entry has a truthy \<^verbatim>\<open>auth\<close> or a truthy \<^verbatim>\<open>credsStore\<close>.\<close>

lemma check_auths_None_iff:
  assumes "w \<noteq> JNull"
  shows "check_auths env s (Some w) ks = None \<longleftrightarrow>
         list_all (\<lambda>a. case map_of (own_properties w) a of
                         None \<Rightarrow> False
                       | Some aut \<Rightarrow> truthy (map_of (own_properties aut) ''auth'') \<or>
                                     truthy (map_of (own_properties aut) ''credsStore'')) ks"
proof (induction ks)
  case Nil
  then show ?case by simp
next
  case (Cons a ks)
  show ?case
    using Cons.IH get_property_aut [of "map_of (own_properties w) a"]
    by (auto simp: get_property_Some [OF assms] split: sum.splits option.splits)
qed

text \<open>The validation lets a text pass exactly when it parses to a value that
  \<open>passes_validation\<close>.\<close>

lemma validate_None_iff:
  "validate env secret = None \<longleftrightarrow> (\<exists>v. JSON_parse env secret = Inr v \<and> passes_validation v)"
proof (cases "JSON_parse env secret")
  case (Inl e)
  then show ?thesis by (simp add: validate_def)
next
  case (Inr v)
  show ?thesis
  proof (cases "v = JNull")
    case True
    then show ?thesis using Inr by (simp add: validate_def passes_validation_def)
  next
    case vn: False
    show ?thesis
    proof (cases "map_of (own_properties v) ''auths''")
      case None
      then show ?thesis using Inr vn
        by (simp add: validate_def passes_validation_def get_property_Some)
    next
      case (Some auths)
      show ?thesis
      proof (cases "auths = JNull")
        case True
        then show ?thesis using Inr vn Some
          by (simp add: validate_def passes_validation_def get_property_Some)
      next
        case an: False
        show ?thesis using Inr vn Some
          by (auto simp: validate_def passes_validation_def get_property_Some Object_keys_Some [OF an]
                check_auths_None_iff [OF an])
      qed
    qed
  qed
qed

text \<open>
  C5, as stated, fails in its second part: \<^verbatim>\<open>commander.pullSecretStore\<close> is called for
  texts that are not pull secrets of the shape the specification gives. The validation
  tests that \<^verbatim>\<open>auths\<close> is truthy and has keys, and that each entry has a truthy \<^verbatim>\<open>auth\<close>
  or \<^verbatim>\<open>credsStore\<close>; it does not test the type of any of them. So the text
  \<^verbatim>\<open>{"auths":[{"auth":true}]}\<close>, whose \<^verbatim>\<open>auths\<close> is an array and whose \<^verbatim>\<open>auth\<close> is a
  boolean, passes and is stored.
\<close>

theorem askAndStorePullSecret_stores_array:
  \<open>JSON_parse (example_env\<lparr>showInputBox_answer := (\<lambda>h. Some ''{"auths":[{"auth":true}]}'')\<rparr>)
       ''{"auths":[{"auth":true}]}'' =
     Inr (JObject [(''auths'', JArray [JObject [(''auth'', JBool True)]])]) \<and>
   askAndStorePullSecret (example_env\<lparr>showInputBox_answer := (\<lambda>h. Some ''{"auths":[{"auth":true}]}'')\<rparr>)
       example_state =
     (True, example_state\<lparr>events := [ShowInputBox, CommanderPullSecretStore ''{"auths":[{"auth":true}]}'']\<rparr>) \<and>
   \<not> PullSecret_invariant (JObject [(''auths'', JArray [JObject [(''auth'', JBool True)]])])\<close>
proof (intro conjI)
  let ?env = \<open>example_env\<lparr>showInputBox_answer := (\<lambda>h. Some ''{"auths":[{"auth":true}]}'')\<rparr>\<close>
  show p: \<open>JSON_parse ?env ''{"auths":[{"auth":true}]}'' =
     Inr (JObject [(''auths'', JArray [JObject [(''auth'', JBool True)]])])\<close>
    by (simp add: example_env_def example_parse_def example_secret_def array_secret_def)
  have "passes_validation (JObject [(''auths'', JArray [JObject [(''auth'', JBool True)]])])"
    by (simp add: passes_validation_def keys_def)
  then have v: \<open>validate ?env ''{"auths":[{"auth":true}]}'' = None\<close>
    unfolding validate_None_iff using p by simp
  show \<open>askAndStorePullSecret ?env example_state =
     (True, example_state\<lparr>events := [ShowInputBox, CommanderPullSecretStore ''{"auths":[{"auth":true}]}'']\<rparr>)\<close>
    by (simp add: askAndStorePullSecret_def showInputBox_def commander_pullSecretStore_def v,
        simp add: example_env_def example_state_def emit_def)
  show "\<not> PullSecret_invariant (JObject [(''auths'', JArray [JObject [(''auth'', JBool True)]])])"
    by (simp add: PullSecret_invariant_def)
qed

text \<open>
  C5, amended. \<^verbatim>\<open>JSON.parse\<close> is the runtime's: the three texts are taken to parse to the
  values ECMAScript gives them. For each of the inputs \<^verbatim>\<open>{}\<close>, \<^verbatim>\<open>{"auths":{}}\<close> and
  \<^verbatim>\<open>{"auths":{"r":{}}}\<close>, \<^verbatim>\<open>askAndStorePullSecret\<close> shows the error message
  \<^verbatim>\<open>Start failed, pull secret is not valid. Please start again:\<close>, followed on a new line
  by the problem in quotes (\<^verbatim>\<open>missing "auths" JSON-object field\<close> for the first two; the
  secret as \<^verbatim>\<open>JSON.stringify\<close> prints it, followed by
  \<^verbatim>\<open>JSON-object requires either 'auth' or 'credsStore' field\<close>, for the third), and
  returns \<^verbatim>\<open>false\<close>; the prompt and the message are all it does, so
  \<^verbatim>\<open>commander.pullSecretStore\<close> is not called. Whenever \<^verbatim>\<open>askAndStorePullSecret\<close> calls
  \<^verbatim>\<open>commander.pullSecretStore\<close>, it passes the text the user entered, and that text parses
  as JSON to a value whose \<^verbatim>\<open>auths\<close> is truthy and has at least one key (an array
  counts as an object does) and in which every entry has a truthy \<^verbatim>\<open>auth\<close> or a
  truthy \<^verbatim>\<open>credsStore\<close>, of whatever type.
\<close>

theorem askAndStorePullSecret_validation:
  \<open>(JSON_parse env ''{}'' = Inr (JObject []) \<and> showInputBox_answer env (events s) = Some ''{}'' \<longrightarrow>
      askAndStorePullSecret env s =
        (False, s\<lparr>events := events s @ [ShowInputBox,
           ShowErrorMessage (Str (''Start failed, pull secret is not valid. Please start again:'' @ [CHR 0x0A] @
             '' 'missing "auths" JSON-object field'' @ [CHR 0x27]))]\<rparr>)) \<and>
   (JSON_parse env ''{"auths":{}}'' = Inr (JObject [(''auths'', JObject [])]) \<and>
    showInputBox_answer env (events s) = Some ''{"auths":{}}'' \<longrightarrow>
      askAndStorePullSecret env s =
        (False, s\<lparr>events := events s @ [ShowInputBox,
           ShowErrorMessage (Str (''Start failed, pull secret is not valid. Please start again:'' @ [CHR 0x0A] @
             '' 'missing "auths" JSON-object field'' @ [CHR 0x27]))]\<rparr>)) \<and>
   (JSON_parse env ''{"auths":{"r":{}}}'' = Inr (JObject [(''auths'', JObject [(''r'', JObject [])])]) \<and>
    showInputBox_answer env (events s) = Some ''{"auths":{"r":{}}}'' \<longrightarrow>
      askAndStorePullSecret env s =
        (False, s\<lparr>events := events s @ [ShowInputBox,
           ShowErrorMessage (Str (''Start failed, pull secret is not valid. Please start again:'' @ [CHR 0x0A] @
             '' '' @ [CHR 0x27] @ JSON_stringify env (JObject [(''auths'', JObject [(''r'', JObject [])])]) @
             '' JSON-object requires either 'auth' or 'credsStore' field'' @ [CHR 0x27]))]\<rparr>)) \<and>
   (\<forall>evs secret. events (snd (askAndStorePullSecret env s)) = events s @ evs \<and>
        CommanderPullSecretStore secret \<in> set evs \<longrightarrow>
      showInputBox_answer env (events s) = Some secret \<and>
      (\<exists>v. JSON_parse env secret = Inr v \<and> passes_validation v))\<close>
proof -
  have p1: \<open>JSON_parse env ''{}'' = Inr (JObject []) \<and> showInputBox_answer env (events s) = Some ''{}'' \<longrightarrow>
      askAndStorePullSecret env s =
        (False, s\<lparr>events := events s @ [ShowInputBox,
           ShowErrorMessage (Str (''Start failed, pull secret is not valid. Please start again:'' @ [CHR 0x0A] @
             '' 'missing "auths" JSON-object field'' @ [CHR 0x27]))]\<rparr>)\<close>
    by (simp add: askAndStorePullSecret_def validate_def invalid_message_def showInputBox_def emit_def)
  have p2: \<open>JSON_parse env ''{"auths":{}}'' = Inr (JObject [(''auths'', JObject [])]) \<and>
    showInputBox_answer env (events s) = Some ''{"auths":{}}'' \<longrightarrow>
      askAndStorePullSecret env s =
        (False, s\<lparr>events := events s @ [ShowInputBox,
           ShowErrorMessage (Str (''Start failed, pull secret is not valid. Please start again:'' @ [CHR 0x0A] @
             '' 'missing "auths" JSON-object field'' @ [CHR 0x27]))]\<rparr>)\<close>
    by (simp add: askAndStorePullSecret_def validate_def invalid_message_def showInputBox_def emit_def keys_def)
  have p3: \<open>JSON_parse env ''{"auths":{"r":{}}}'' = Inr (JObject [(''auths'', JObject [(''r'', JObject [])])]) \<and>
    showInputBox_answer env (events s) = Some ''{"auths":{"r":{}}}'' \<longrightarrow>
      askAndStorePullSecret env s =
        (False, s\<lparr>events := events s @ [ShowInputBox,
           ShowErrorMessage (Str (''Start failed, pull secret is not valid. Please start again:'' @ [CHR 0x0A] @
             '' '' @ [CHR 0x27] @ JSON_stringify env (JObject [(''auths'', JObject [(''r'', JObject [])])]) @
             '' JSON-object requires either 'auth' or 'credsStore' field'' @ [CHR 0x27]))]\<rparr>)\<close>
    by (simp add: askAndStorePullSecret_def validate_def invalid_message_def showInputBox_def emit_def keys_def)
  have p4: "\<forall>evs secret. events (snd (askAndStorePullSecret env s)) = events s @ evs \<and>
        CommanderPullSecretStore secret \<in> set evs \<longrightarrow>
      showInputBox_answer env (events s) = Some secret \<and>
      (\<exists>v. JSON_parse env secret = Inr v \<and> passes_validation v)"
  proof (intro allI impI)
    fix evs secret
    assume a: "events (snd (askAndStorePullSecret env s)) = events s @ evs \<and>
        CommanderPullSecretStore secret \<in> set evs"
    show "showInputBox_answer env (events s) = Some secret \<and>
      (\<exists>v. JSON_parse env secret = Inr v \<and> passes_validation v)"
    proof (cases "showInputBox_answer env (events s)")
      case None
      then show ?thesis using a by (auto simp: askAndStorePullSecret_def prim_defs)
    next
      case (Some t)
      show ?thesis
      proof (cases "t = [] \<or> validate env t \<noteq> None")
        case True
        then show ?thesis using a Some
          by (auto simp: askAndStorePullSecret_def prim_defs split: option.splits if_splits)
      next
        case False
        then have v: "validate env t = None" by simp
        have "secret = t" using a Some False v
          by (auto simp: askAndStorePullSecret_def prim_defs split: option.splits)
        then show ?thesis using v Some by (simp add: validate_None_iff)
      qed
    qed
  qed
  show ?thesis
    by (rule conjI [OF p1 conjI [OF p2 conjI [OF p3 p4]]])
qed

theorem askAndStorePullSecret_validation_witness:
  \<open>askAndStorePullSecret (example_env\<lparr>showInputBox_answer := (\<lambda>h. Some ''{}'')\<rparr>) example_state =
     (False, example_state\<lparr>events := [ShowInputBox,
        ShowErrorMessage (Str (''Start failed, pull secret is not valid. Please start again:'' @ [CHR 0x0A] @
          '' 'missing "auths" JSON-object field'' @ [CHR 0x27]))]\<rparr>) \<and>
   askAndStorePullSecret (example_env\<lparr>showInputBox_answer := (\<lambda>h. Some ''{"auths":{}}'')\<rparr>) example_state =
     (False, example_state\<lparr>events := [ShowInputBox,
        ShowErrorMessage (Str (''Start failed, pull secret is not valid. Please start again:'' @ [CHR 0x0A] @
          '' 'missing "auths" JSON-object field'' @ [CHR 0x27]))]\<rparr>) \<and>
   askAndStorePullSecret (example_env\<lparr>showInputBox_answer := (\<lambda>h. Some ''{"auths":{"r":{}}}'')\<rparr>) example_state =
     (False, example_state\<lparr>events := [ShowInputBox,
        ShowErrorMessage (Str (''Start failed, pull secret is not valid. Please start again:'' @ [CHR 0x0A] @
          '' '{"auths":{"r":{}}} JSON-object requires either 'auth' or 'credsStore' field'' @ [CHR 0x27]))]\<rparr>) \<and>
   passes_validation
     (JObject [(''auths'', JObject [(''registry.io'', JObject [(''auth'', JString ''xxx'')])])])\<close>
proof (intro conjI)
  let ?e1 = \<open>example_env\<lparr>showInputBox_answer := (\<lambda>h. Some ''{}'')\<rparr>\<close>
  show \<open>askAndStorePullSecret ?e1 example_state =
     (False, example_state\<lparr>events := [ShowInputBox,
        ShowErrorMessage (Str (''Start failed, pull secret is not valid. Please start again:'' @ [CHR 0x0A] @
          '' 'missing "auths" JSON-object field'' @ [CHR 0x27]))]\<rparr>)\<close>
    using askAndStorePullSecret_validation [of ?e1 example_state]
    by (simp add: example_env_def example_parse_def example_state_def)
next
  let ?e2 = \<open>example_env\<lparr>showInputBox_answer := (\<lambda>h. Some ''{"auths":{}}'')\<rparr>\<close>
  show \<open>askAndStorePullSecret ?e2 example_state =
     (False, example_state\<lparr>events := [ShowInputBox,
        ShowErrorMessage (Str (''Start failed, pull secret is not valid. Please start again:'' @ [CHR 0x0A] @
          '' 'missing "auths" JSON-object field'' @ [CHR 0x27]))]\<rparr>)\<close>
    using askAndStorePullSecret_validation [of ?e2 example_state]
    by (simp add: example_env_def example_parse_def example_state_def)
next
  let ?e3 = \<open>example_env\<lparr>showInputBox_answer := (\<lambda>h. Some ''{"auths":{"r":{}}}'')\<rparr>\<close>
  show \<open>askAndStorePullSecret ?e3 example_state =
     (False, example_state\<lparr>events := [ShowInputBox,
        ShowErrorMessage (Str (''Start failed, pull secret is not valid. Please start again:'' @ [CHR 0x0A] @
          '' '{"auths":{"r":{}}} JSON-object requires either 'auth' or 'credsStore' field'' @ [CHR 0x27]))]\<rparr>)\<close>
    using askAndStorePullSecret_validation [of ?e3 example_state]
    by (simp add: example_env_def example_parse_def example_stringify_def example_state_def)
next
  let ?e4 = \<open>example_env\<lparr>showInputBox_answer := (\<lambda>h. Some example_secret)\<rparr>\<close>
  have v: "validate ?e4 example_secret = None"
    by (rule validate_example_secret) (simp add: example_env_def)
  have ne: "example_secret \<noteq> []" by (simp add: example_secret_def)
  have run: "askAndStorePullSecret ?e4 example_state =
      (True, example_state\<lparr>events := [ShowInputBox, CommanderPullSecretStore example_secret]\<rparr>)"
    by (simp add: askAndStorePullSecret_def showInputBox_def commander_pullSecretStore_def v ne,
        simp add: example_env_def example_state_def emit_def)
  have p: "JSON_parse ?e4 example_secret =
      Inr (JObject [(''auths'', JObject [(''registry.io'', JObject [(''auth'', JString ''xxx'')])])])"
    by (simp add: example_env_def example_parse_def example_secret_def)
  have "events (snd (askAndStorePullSecret ?e4 example_state)) =
          events example_state @ [ShowInputBox, CommanderPullSecretStore example_secret] \<and>
        CommanderPullSecretStore example_secret \<in> set [ShowInputBox, CommanderPullSecretStore example_secret]"
    unfolding run by (simp add: example_state_def)
  with askAndStorePullSecret_validation [of ?e4 example_state]
  have "\<exists>v. JSON_parse ?e4 example_secret = Inr v \<and> passes_validation v"
    by blast
  then show "passes_validation
     (JObject [(''auths'', JObject [(''registry.io'', JObject [(''auth'', JString ''xxx'')])])])"
    using p by simp
qed


section \<open>Properties of startCrc\<close>

text \<open>
  C1. When the setup block does not leave \<^verbatim>\<open>startCrc\<close> (setup is not required, or
  \<^verbatim>\<open>setUpCrc\<close> and \<^verbatim>\<open>needSetup\<close> both return; this is what the first hypothesis
  says, by \<open>startCrc_setup_passes\<close>) and \<^verbatim>\<open>commander.start()\<close> returns a
  result, the \<^verbatim>\<open>Status\<close> string alone decides the outcome. For \<^verbatim>\<open>"Running"\<close> the
  provider status is updated to \<^verbatim>\<open>started\<close> and \<^verbatim>\<open>startCrc\<close> returns \<^verbatim>\<open>true\<close>. For
  every other value the provider status is updated to \<^verbatim>\<open>error\<close>, an error message
  naming the status is shown, and \<^verbatim>\<open>startCrc\<close> returns \<^verbatim>\<open>false\<close>.
\<close>

theorem startCrc_status_decides:
  assumes su: "startCrc_setup env (emit (LogUsage ''crc.start'') s) = (False, s1)"
      and answer: "start_answer env (events s1 @ [StartSendingLogs]) = Inr Status"
  shows "\<exists>s'. startCrc env s = Some (Inr (Some (Status = ''Running'')), s') \<and>
           providerStatus s' = (if Status = ''Running'' then Started else Error) \<and>
           events s' = events s1 @ [StartSendingLogs, CommanderStart] @
             (if Status = ''Running'' then [UpdateStatus Started]
              else [UpdateStatus Error,
                    ShowErrorMessage (Str (''Error during starting '' @ productName env @ '': '' @ Status))])"
  using startCrc_returns [OF su answer] by (simp add: prim_defs)

theorem startCrc_status_decides_witness:
  "\<exists>s'. startCrc example_env example_state = Some (Inr (Some True), s') \<and>
         providerStatus s' = Started \<and>
         events s' = [LogUsage ''crc.start'', StartSendingLogs, CommanderStart, UpdateStatus Started]"
  using startCrc_status_decides [of example_env example_state
      "emit (LogUsage ''crc.start'') example_state" "''Running''"]
  by (simp add: startCrc_setup_def example_env_def example_state_def emit_def)

text \<open>
  C2. When \<^verbatim>\<open>isNeedSetup\<close> is set and \<^verbatim>\<open>setUpCrc\<close> throws, \<^verbatim>\<open>startCrc\<close> logs the
  error with the logger, updates the provider status to \<^verbatim>\<open>stopped\<close> and returns
  \<^verbatim>\<open>undefined\<close>, which is not a success. On every way out of the setup block, whether
  setup succeeded or an error was thrown, the last thing the block does is
  \<^verbatim>\<open>crcStatus.setSetupRunning(false)\<close>, so the setup-running flag is not left set.
\<close>

theorem startCrc_setup_failure:
  "(isNeedSetup s \<and> setUpCrc_answer env (events s @ [LogUsage ''crc.start'', SetSetupRunning True]) = Inl error \<longrightarrow>
      (\<exists>s'. startCrc env s = Some (Inr None, s') \<and> providerStatus s' = Stopped \<and> \<not> setupRunning s' \<and>
            events s' = events s @ [LogUsage ''crc.start'', SetSetupRunning True, SetUpCrc True,
                                   LoggerError error, UpdateStatus Stopped, SetSetupRunning False])) \<and>
   (isNeedSetup s0 \<longrightarrow>
      \<not> setupRunning (snd (startCrc_setup env s0)) \<and>
      last (events (snd (startCrc_setup env s0))) = SetSetupRunning False)"
proof (intro conjI impI)
  assume a: "isNeedSetup s \<and> setUpCrc_answer env (events s @ [LogUsage ''crc.start'', SetSetupRunning True]) = Inl error"
  have tr: "startCrc_try env (emit (LogUsage ''crc.start'') s) =
     (Return None, setSetupRunning False (updateStatus Stopped (emit (LoggerError error)
        (emit (SetUpCrc True) (setSetupRunning True (emit (LogUsage ''crc.start'') s))))))"
    using a by (simp add: startCrc_try_def startCrc_setup_def prim_defs)
  show "\<exists>s'. startCrc env s = Some (Inr None, s') \<and> providerStatus s' = Stopped \<and> \<not> setupRunning s' \<and>
            events s' = events s @ [LogUsage ''crc.start'', SetSetupRunning True, SetUpCrc True,
                                   LoggerError error, UpdateStatus Stopped, SetSetupRunning False]"
    by (subst startCrc.simps, simp only: tr, simp add: prim_defs)
next
  assume "isNeedSetup s0"
  then show "\<not> setupRunning (snd (startCrc_setup env s0))"
    by (simp add: startCrc_setup_def prim_defs Let_def split: sum.splits option.splits prod.splits)
next
  assume "isNeedSetup s0"
  then show "last (events (snd (startCrc_setup env s0))) = SetSetupRunning False"
    by (simp add: startCrc_setup_def prim_defs Let_def split: sum.splits option.splits prod.splits)
qed

theorem startCrc_setup_failure_witness:
  "\<exists>s'. startCrc (example_env\<lparr>setUpCrc_answer := (\<lambda>h. Inl (new_Error ''setup failed''))\<rparr>)
           (example_state\<lparr>isNeedSetup := True\<rparr>) = Some (Inr None, s') \<and>
        providerStatus s' = Stopped \<and> \<not> setupRunning s' \<and>
        events s' = [LogUsage ''crc.start'', SetSetupRunning True, SetUpCrc True,
                     LoggerError (new_Error ''setup failed''), UpdateStatus Stopped, SetSetupRunning False]"
  using startCrc_setup_failure [of "example_state\<lparr>isNeedSetup := True\<rparr>"
      "example_env\<lparr>setUpCrc_answer := (\<lambda>h. Inl (new_Error ''setup failed''))\<rparr>"
      "new_Error ''setup failed''" "example_state\<lparr>isNeedSetup := True\<rparr>"]
  by (simp add: example_env_def example_state_def)

text \<open>
  C3. When \<^verbatim>\<open>commander.start()\<close> throws an error whose message begins with the
  missing-pull-secret marker, \<^verbatim>\<open>startCrc\<close> calls \<^verbatim>\<open>askAndStorePullSecret\<close>. That call
  succeeds exactly when the user entered a non-empty text that passes validation and the
  daemon stored it. If it succeeds, \<^verbatim>\<open>startCrc\<close> is run again from the state reached and
  its result is the result of that run. If it fails, \<^verbatim>\<open>startCrc\<close> throws the error
  \<^verbatim>\<open>Could not start without pullsecret!\<close> and makes no further attempt: the daemon's
  start operation has been called once.
\<close>

theorem startCrc_missing_pull_secret:
  assumes su: "startCrc_setup env (emit (LogUsage ''crc.start'') s) = (False, s1)"
      and answer: "start_answer env (events s1 @ [StartSendingLogs]) = Inl err"
      and msg: "message err = Some m" "startsWith m missingPullSecret"
      and ask: "askAndStorePullSecret env (emit CommanderStart (emit StartSendingLogs s1)) = (stored, s2)"
  shows "(stored \<longleftrightarrow>
            (\<exists>secret. showInputBox_answer env (events s1 @ [StartSendingLogs, CommanderStart]) = Some secret \<and>
               secret \<noteq> [] \<and> validate env secret = None \<and>
               pullSecretStore_answer env (events s1 @ [StartSendingLogs, CommanderStart, ShowInputBox]) = None)) \<and>
         (stored \<longrightarrow> startCrc env s = startCrc env s2) \<and>
         (\<not> stored \<longrightarrow>
            startCrc env s = Some (Inl (new_Error ''Could not start without pullsecret!''), s2) \<and>
            length (filter (\<lambda>e. e = CommanderStart) (events s2)) =
              Suc (length (filter (\<lambda>e. e = CommanderStart) (events s))))"
proof (intro conjI impI)
  note tr = startCrc_try_throw [OF su answer]
  have unfold: "startCrc env s =
      (if stored then startCrc env s2
       else Some (Inl (new_Error ''Could not start without pullsecret!''), s2))"
    by (subst startCrc.simps, simp only: tr, simp add: msg ask message_not_nullish [OF msg(1)])
  show "stored \<longleftrightarrow>
            (\<exists>secret. showInputBox_answer env (events s1 @ [StartSendingLogs, CommanderStart]) = Some secret \<and>
               secret \<noteq> [] \<and> validate env secret = None \<and>
               pullSecretStore_answer env (events s1 @ [StartSendingLogs, CommanderStart, ShowInputBox]) = None)"
    using askAndStorePullSecret_stored_iff [of env "emit CommanderStart (emit StartSendingLogs s1)"] ask
    by (simp add: emit_def)
  { assume stored then show "startCrc env s = startCrc env s2" using unfold by simp }
  { assume "\<not> stored"
    then show "startCrc env s = Some (Inl (new_Error ''Could not start without pullsecret!''), s2)"
      using unfold by simp }
  { assume "\<not> stored"
    obtain evs1 where e1: "events s1 = (events s @ [LogUsage ''crc.start'']) @ evs1" "CommanderStart \<notin> set evs1"
      using startCrc_setup_events [of env "emit (LogUsage ''crc.start'') s"] su by (auto simp: emit_def)
    obtain evs2 where e2: "events s2 = (events s1 @ [StartSendingLogs, CommanderStart]) @ evs2"
        "CommanderStart \<notin> set evs2"
      using askAndStorePullSecret_events [of env "emit CommanderStart (emit StartSendingLogs s1)"] ask
      by (auto simp: emit_def)
    have "filter (\<lambda>e. e = CommanderStart) evs1 = []" "filter (\<lambda>e. e = CommanderStart) evs2 = []"
      using e1(2) e2(2) by (auto simp: filter_empty_conv)
    then show "length (filter (\<lambda>e. e = CommanderStart) (events s2)) =
              Suc (length (filter (\<lambda>e. e = CommanderStart) (events s)))"
      using e1(1) e2(1) by simp }
qed

theorem startCrc_missing_pull_secret_witness:
  "startCrc cancel_env example_state =
     Some (Inl (new_Error ''Could not start without pullsecret!''),
           example_state\<lparr>events := [LogUsage ''crc.start'', StartSendingLogs, CommanderStart, ShowInputBox]\<rparr>) \<and>
   startCrc retry_env example_state =
     startCrc retry_env
       (example_state\<lparr>events := [LogUsage ''crc.start'', StartSendingLogs, CommanderStart, ShowInputBox,
                                  CommanderPullSecretStore example_secret]\<rparr>)"
proof
  let ?s1 = "emit (LogUsage ''crc.start'') example_state"
  let ?m = "''Failed to ask for pull secret: no terminal''"
  have m: "message missing_secret_error = Some ?m" "startsWith ?m missingPullSecret"
    by (simp_all add: missing_secret_error_def startsWith_def missingPullSecret_def)
  have su: "startCrc_setup cancel_env ?s1 = (False, ?s1)"
    by (simp add: startCrc_setup_def example_state_def emit_def)
  have ans: "start_answer cancel_env (events ?s1 @ [StartSendingLogs]) = Inl missing_secret_error"
    by (simp add: cancel_env_def example_env_def)
  have ask: "askAndStorePullSecret cancel_env (emit CommanderStart (emit StartSendingLogs ?s1)) =
      (False, example_state\<lparr>events := [LogUsage ''crc.start'', StartSendingLogs, CommanderStart, ShowInputBox]\<rparr>)"
    by (simp add: askAndStorePullSecret_def showInputBox_def cancel_env_def example_env_def
          example_state_def emit_def)
  show "startCrc cancel_env example_state =
     Some (Inl (new_Error ''Could not start without pullsecret!''),
           example_state\<lparr>events := [LogUsage ''crc.start'', StartSendingLogs, CommanderStart, ShowInputBox]\<rparr>)"
    using startCrc_missing_pull_secret [OF su ans m ask] by simp
next
  let ?s1 = "emit (LogUsage ''crc.start'') example_state"
  let ?m = "''Failed to ask for pull secret: no terminal''"
  have m: "message missing_secret_error = Some ?m" "startsWith ?m missingPullSecret"
    by (simp_all add: missing_secret_error_def startsWith_def missingPullSecret_def)
  have su: "startCrc_setup retry_env ?s1 = (False, ?s1)"
    by (simp add: startCrc_setup_def example_state_def emit_def)
  have ans: "start_answer retry_env (events ?s1 @ [StartSendingLogs]) = Inl missing_secret_error"
    by (simp add: retry_env_def example_env_def example_state_def emit_def)
  have v: "validate retry_env example_secret = None"
    by (rule validate_example_secret) (simp add: retry_env_def example_env_def)
  have inp: "showInputBox_answer retry_env h = Some example_secret" for h
    by (simp add: retry_env_def example_env_def)
  have st: "pullSecretStore_answer retry_env h = None" for h
    by (simp add: retry_env_def example_env_def)
  have ne: "example_secret \<noteq> []"
    by (simp add: example_secret_def)
  have ask: "askAndStorePullSecret retry_env (emit CommanderStart (emit StartSendingLogs ?s1)) =
      (True, example_state\<lparr>events := [LogUsage ''crc.start'', StartSendingLogs, CommanderStart, ShowInputBox,
                                  CommanderPullSecretStore example_secret]\<rparr>)"
    by (simp add: askAndStorePullSecret_def showInputBox_def commander_pullSecretStore_def
          inp st v ne example_state_def emit_def)
  show "startCrc retry_env example_state =
     startCrc retry_env
       (example_state\<lparr>events := [LogUsage ''crc.start'', StartSendingLogs, CommanderStart, ShowInputBox,
                                  CommanderPullSecretStore example_secret]\<rparr>)"
    using startCrc_missing_pull_secret [OF su ans m ask] by simp
qed

text \<open>
  What holds of an error thrown by \<^verbatim>\<open>commander.start()\<close> that is neither \<^verbatim>\<open>undefined\<close>
  nor \<^verbatim>\<open>null\<close> and not a missing-pull-secret error: with a string message, the name
  \<^verbatim>\<open>RequestError\<close> and the code \<^verbatim>\<open>ECONNRESET\<close> it gives the status \<^verbatim>\<open>started\<close> and
  \<^verbatim>\<open>true\<close>; otherwise it is shown and logged and gives \<^verbatim>\<open>stopped\<close> and \<^verbatim>\<open>false\<close>.
\<close>

lemma startCrc_other_errors:
  assumes su: "startCrc_setup env (emit (LogUsage ''crc.start'') s) = (False, s1)"
      and answer: "start_answer env (events s1 @ [StartSendingLogs]) = Inl err"
      and nn: "\<not> nullish err"
      and other: "\<forall>m. message err = Some m \<longrightarrow> \<not> startsWith m missingPullSecret"
  shows "(message err \<noteq> None \<and> name err = Some ''RequestError'' \<and> code err = Some ''ECONNRESET'' \<longrightarrow>
            (\<exists>s'. startCrc env s = Some (Inr (Some True), s') \<and> providerStatus s' = Started \<and>
                  events s' = events s1 @ [StartSendingLogs, CommanderStart, UpdateStatus Started])) \<and>
         (\<not> (message err \<noteq> None \<and> name err = Some ''RequestError'' \<and> code err = Some ''ECONNRESET'') \<longrightarrow>
            (\<exists>s'. startCrc env s = Some (Inr (Some False), s') \<and> providerStatus s' = Stopped \<and>
                  events s' = events s1 @ [StartSendingLogs, CommanderStart, ShowErrorMessage (Exn err),
                                           ConsoleError (Exn err), UpdateStatus Stopped]))"
proof -
  note tr = startCrc_try_throw [OF su answer]
  have no: "\<not> (case message err of None \<Rightarrow> False | Some m \<Rightarrow> startsWith m missingPullSecret)"
    using other by (simp split: option.splits)
  show ?thesis
  proof (cases "message err \<noteq> None \<and> name err = Some ''RequestError'' \<and> code err = Some ''ECONNRESET''")
    case True
    then show ?thesis
      by (subst startCrc.simps, simp only: tr, simp add: no nn prim_defs)
  next
    case False
    then show ?thesis
      by (subst startCrc.simps, simp only: tr, simp add: no nn prim_defs)
  qed
qed

text \<open>The connection reset, on the example: status \<^verbatim>\<open>started\<close>, result \<^verbatim>\<open>true\<close>.\<close>

lemma startCrc_connection_reset_example:
  "\<exists>s'. startCrc reset_env example_state = Some (Inr (Some True), s') \<and> providerStatus s' = Started \<and>
         events s' = [LogUsage ''crc.start'', StartSendingLogs, CommanderStart, UpdateStatus Started]"
proof -
  let ?s1 = "emit (LogUsage ''crc.start'') example_state"
  have su: "startCrc_setup reset_env ?s1 = (False, ?s1)"
    by (simp add: startCrc_setup_def example_state_def emit_def)
  have ans: "start_answer reset_env (events ?s1 @ [StartSendingLogs]) = Inl connection_reset_error"
    by (simp add: reset_env_def example_env_def)
  have nn: "\<not> nullish connection_reset_error"
    by (simp add: connection_reset_error_def)
  have other: "\<forall>m. message connection_reset_error = Some m \<longrightarrow> \<not> startsWith m missingPullSecret"
    by (simp add: connection_reset_error_def startsWith_def missingPullSecret_def)
  from startCrc_other_errors [OF su ans nn other]
  show ?thesis
    by (simp add: connection_reset_error_def example_state_def emit_def)
qed

text \<open>
  C4 holds of the code in its first part (see \<open>startCrc_other_errors\<close>) and fails in its
  second: not every other thrown value leads to a message, the status \<^verbatim>\<open>stopped\<close> and a
  failure result. When \<^verbatim>\<open>commander.start()\<close> throws \<^verbatim>\<open>undefined\<close>, the \<^verbatim>\<open>catch\<close> clause
  reads \<^verbatim>\<open>err.message\<close> on it (line 68) and \<^verbatim>\<open>startCrc\<close> throws a \<^verbatim>\<open>TypeError\<close> to its
  caller: no message is shown, the provider status is not updated, and nothing is
  returned.
\<close>

theorem startCrc_undefined_thrown:
  "startCrc undefined_env example_state =
     Some (Inl (TypeError ''undefined'' ''message''),
           example_state\<lparr>events := [LogUsage ''crc.start'', StartSendingLogs, CommanderStart]\<rparr>)"
proof -
  let ?s1 = "emit (LogUsage ''crc.start'') example_state"
  have su: "startCrc_setup undefined_env ?s1 = (False, ?s1)"
    by (simp add: startCrc_setup_def example_state_def emit_def)
  have ans: "start_answer undefined_env (events ?s1 @ [StartSendingLogs]) = Inl ThrownUndefined"
    by (simp add: undefined_env_def example_env_def)
  show ?thesis
    by (subst startCrc.simps, simp only: startCrc_try_throw [OF su ans])
       (simp add: example_state_def emit_def)
qed

text \<open>
  C8, as stated, fails: \<^verbatim>\<open>startCrc\<close> throws to its caller. The daemon reports the missing
  pull secret and the user cancels the prompt; \<^verbatim>\<open>startCrc\<close> then throws the error of
  line 76, having shown no message and made no status update.
\<close>

theorem startCrc_throws_counterexample:
  "startCrc cancel_env example_state =
     Some (Inl (new_Error ''Could not start without pullsecret!''),
           example_state\<lparr>events := [LogUsage ''crc.start'', StartSendingLogs, CommanderStart, ShowInputBox]\<rparr>)"
  by (rule cancel_run)

text \<open>
  C8, amended. As long as \<^verbatim>\<open>commander.start()\<close> throws no \<^verbatim>\<open>undefined\<close> or \<^verbatim>\<open>null\<close>,
  \<^verbatim>\<open>startCrc\<close> catches every error it throws. An error with the missing-pull-secret
  marker leads to the solicitation of a pull secret, followed by another run of
  \<^verbatim>\<open>startCrc\<close> or by the throw of \<^verbatim>\<open>Could not start without pullsecret!\<close>. Every other
  error makes \<^verbatim>\<open>startCrc\<close> return: \<^verbatim>\<open>true\<close> with the status \<^verbatim>\<open>started\<close> (the connection
  reset), or \<^verbatim>\<open>false\<close> with the error shown and the status \<^verbatim>\<open>stopped\<close>. Whenever
  \<^verbatim>\<open>startCrc\<close> then throws to its caller, the error thrown is
  \<^verbatim>\<open>Could not start without pullsecret!\<close>, the daemon had reported the missing pull
  secret and \<^verbatim>\<open>askAndStorePullSecret\<close> had failed; the daemon's own error is never thrown
  on.
\<close>

theorem startCrc_throws_only_without_pull_secret:
  "(startCrc env s = Some (Inl e, s') \<and>
    (\<forall>h err. start_answer env h = Inl err \<longrightarrow> \<not> nullish err) \<longrightarrow>
      e = new_Error ''Could not start without pullsecret!'' \<and>
      (\<exists>s1 err m. start_answer env (events s1) = Inl err \<and> message err = Some m \<and>
         startsWith m missingPullSecret \<and>
         askAndStorePullSecret env (emit CommanderStart s1) = (False, s'))) \<and>
   (startCrc_setup env (emit (LogUsage ''crc.start'') s) = (False, s1) \<and>
    start_answer env (events s1 @ [StartSendingLogs]) = Inl err \<and> \<not> nullish err \<longrightarrow>
      (if (case message err of None \<Rightarrow> False | Some m \<Rightarrow> startsWith m missingPullSecret)
       then \<exists>stored s2. askAndStorePullSecret env (emit CommanderStart (emit StartSendingLogs s1)) = (stored, s2) \<and>
              ShowInputBox \<in> set (events s2) \<and>
              startCrc env s = (if stored then startCrc env s2
                                else Some (Inl (new_Error ''Could not start without pullsecret!''), s2))
       else \<exists>v s2. startCrc env s = Some (Inr (Some v), s2) \<and>
              (if v then providerStatus s2 = Started
               else providerStatus s2 = Stopped \<and> ShowErrorMessage (Exn err) \<in> set (events s2))))"
proof (rule conjI; rule impI)
  assume a: "startCrc env s = Some (Inl e, s') \<and>
    (\<forall>h err. start_answer env h = Inl err \<longrightarrow> \<not> nullish err)"
  then have "startCrc env s = Some (Inl e, s')" by simp
  from startCrc_thrown [OF this] a
  show "e = new_Error ''Could not start without pullsecret!'' \<and>
      (\<exists>s1 err m. start_answer env (events s1) = Inl err \<and> message err = Some m \<and>
         startsWith m missingPullSecret \<and>
         askAndStorePullSecret env (emit CommanderStart s1) = (False, s'))"
    by blast
next
  assume a: "startCrc_setup env (emit (LogUsage ''crc.start'') s) = (False, s1) \<and>
    start_answer env (events s1 @ [StartSendingLogs]) = Inl err \<and> \<not> nullish err"
  then have tr: "startCrc_try env (emit (LogUsage ''crc.start'') s) =
           (Throw err, emit CommanderStart (emit StartSendingLogs s1))"
    using startCrc_try_throw by blast
  from a have nn: "\<not> nullish err" by simp
  let ?s = "emit CommanderStart (emit StartSendingLogs s1)"
  show "if (case message err of None \<Rightarrow> False | Some m \<Rightarrow> startsWith m missingPullSecret)
       then \<exists>stored s2. askAndStorePullSecret env ?s = (stored, s2) \<and>
              ShowInputBox \<in> set (events s2) \<and>
              startCrc env s = (if stored then startCrc env s2
                                else Some (Inl (new_Error ''Could not start without pullsecret!''), s2))
       else \<exists>v s2. startCrc env s = Some (Inr (Some v), s2) \<and>
              (if v then providerStatus s2 = Started
               else providerStatus s2 = Stopped \<and> ShowErrorMessage (Exn err) \<in> set (events s2))"
  proof (cases "case message err of None \<Rightarrow> False | Some m \<Rightarrow> startsWith m missingPullSecret")
    case True
    obtain stored s2 where ask: "askAndStorePullSecret env ?s = (stored, s2)"
      by (cases "askAndStorePullSecret env ?s")
    have box: "ShowInputBox \<in> set (events s2)"
      using ask by (auto simp: askAndStorePullSecret_def prim_defs split: option.splits if_splits)
    have "startCrc env s = (if stored then startCrc env s2
                                else Some (Inl (new_Error ''Could not start without pullsecret!''), s2))"
      by (subst startCrc.simps, simp only: tr, simp add: True ask nn)
    then show ?thesis using True ask box by simp
  next
    case False
    from startCrc_other_errors [of env s s1 err] a False
    have o: "(message err \<noteq> None \<and> name err = Some ''RequestError'' \<and> code err = Some ''ECONNRESET'' \<longrightarrow>
            (\<exists>s'. startCrc env s = Some (Inr (Some True), s') \<and> providerStatus s' = Started \<and>
                  events s' = events s1 @ [StartSendingLogs, CommanderStart, UpdateStatus Started])) \<and>
         (\<not> (message err \<noteq> None \<and> name err = Some ''RequestError'' \<and> code err = Some ''ECONNRESET'') \<longrightarrow>
            (\<exists>s'. startCrc env s = Some (Inr (Some False), s') \<and> providerStatus s' = Stopped \<and>
                  events s' = events s1 @ [StartSendingLogs, CommanderStart, ShowErrorMessage (Exn err),
                                           ConsoleError (Exn err), UpdateStatus Stopped]))"
      by (auto split: option.splits)
    have "\<exists>v s2. startCrc env s = Some (Inr (Some v), s2) \<and>
              (if v then providerStatus s2 = Started
               else providerStatus s2 = Stopped \<and> ShowErrorMessage (Exn err) \<in> set (events s2))"
    proof (cases "message err \<noteq> None \<and> name err = Some ''RequestError'' \<and> code err = Some ''ECONNRESET''")
      case True
      with o obtain s2 where "startCrc env s = Some (Inr (Some True), s2)" "providerStatus s2 = Started"
        by blast
      then show ?thesis by (intro exI [of _ True] exI [of _ s2]) simp
    next
      case nr: False
      with o obtain s2 where "startCrc env s = Some (Inr (Some False), s2)" "providerStatus s2 = Stopped"
          "events s2 = events s1 @ [StartSendingLogs, CommanderStart, ShowErrorMessage (Exn err),
                                           ConsoleError (Exn err), UpdateStatus Stopped]"
        by blast
      then show ?thesis by (intro exI [of _ False] exI [of _ s2]) simp
    qed
    then show ?thesis using False by simp
  qed
qed

theorem startCrc_throws_only_without_pull_secret_witness:
  "startCrc cancel_env example_state =
     Some (Inl (new_Error ''Could not start without pullsecret!''),
           example_state\<lparr>events := [LogUsage ''crc.start'', StartSendingLogs, CommanderStart, ShowInputBox]\<rparr>) \<and>
   (\<exists>s1 err m. start_answer cancel_env (events s1) = Inl err \<and> message err = Some m \<and>
      startsWith m missingPullSecret \<and>
      askAndStorePullSecret cancel_env (emit CommanderStart s1) =
        (False, example_state\<lparr>events := [LogUsage ''crc.start'', StartSendingLogs, CommanderStart, ShowInputBox]\<rparr>)) \<and>
   (\<exists>s2. startCrc refused_env example_state = Some (Inr (Some False), s2) \<and> providerStatus s2 = Stopped)"
proof (intro conjI)
  have none: "\<forall>h err. start_answer cancel_env h = Inl err \<longrightarrow> \<not> nullish err"
    by (simp add: cancel_env_def example_env_def missing_secret_error_def)
  show "startCrc cancel_env example_state =
     Some (Inl (new_Error ''Could not start without pullsecret!''),
           example_state\<lparr>events := [LogUsage ''crc.start'', StartSendingLogs, CommanderStart, ShowInputBox]\<rparr>)"
    by (rule cancel_run)
  show "\<exists>s1 err m. start_answer cancel_env (events s1) = Inl err \<and> message err = Some m \<and>
      startsWith m missingPullSecret \<and>
      askAndStorePullSecret cancel_env (emit CommanderStart s1) =
        (False, example_state\<lparr>events := [LogUsage ''crc.start'', StartSendingLogs, CommanderStart, ShowInputBox]\<rparr>)"
    using startCrc_throws_only_without_pull_secret [of cancel_env example_state
        "new_Error ''Could not start without pullsecret!''"
        "example_state\<lparr>events := [LogUsage ''crc.start'', StartSendingLogs, CommanderStart, ShowInputBox]\<rparr>"]
      cancel_run none by simp
  let ?s1 = "emit (LogUsage ''crc.start'') example_state"
  let ?err = "ThrownError (Some ''RequestError'') (Some ''connect ECONNREFUSED'') (Some ''ECONNREFUSED'')"
  have su: "startCrc_setup refused_env ?s1 = (False, ?s1)"
    by (simp add: startCrc_setup_def example_state_def emit_def)
  have ans: "start_answer refused_env (events ?s1 @ [StartSendingLogs]) = Inl ?err"
    by (simp add: refused_env_def example_env_def)
  have "\<not> (case message ?err of None \<Rightarrow> False | Some m \<Rightarrow> startsWith m missingPullSecret)"
    by (simp add: startsWith_def missingPullSecret_def)
  with startCrc_throws_only_without_pull_secret [of refused_env example_state _ _ ?s1 ?err] su ans
  have "\<exists>v s2. startCrc refused_env example_state = Some (Inr (Some v), s2) \<and>
              (if v then providerStatus s2 = Started
               else providerStatus s2 = Stopped \<and> ShowErrorMessage (Exn ?err) \<in> set (events s2))"
    by simp
  moreover have "startCrc refused_env example_state \<noteq> Some (Inr (Some True), s2)" for s2
    by (subst startCrc.simps, simp only: startCrc_try_throw [OF su ans],
        simp add: startsWith_def missingPullSecret_def)
  ultimately show "\<exists>s2. startCrc refused_env example_state = Some (Inr (Some False), s2) \<and> providerStatus s2 = Stopped"
    by (metis (full_types))
qed


section \<open>Properties of the callbacks and of createCrcVm\<close>

text \<open>
  C9. In both start callbacks (of the provider lifecycle and of the Kubernetes connection
  lifecycle) \<^verbatim>\<open>provider.updateStatus('starting')\<close> is the first effect: \<^verbatim>\<open>startCrc\<close> is
  entered in a state whose provider status is \<^verbatim>\<open>starting\<close>, and in the trace of a run that
  returns the status update precedes the telemetry call that opens \<^verbatim>\<open>startCrc\<close> and
  with it every call of setup, of the daemon and of the prompt, which are the places where
  the callback can be suspended. In both stop callbacks
  \<^verbatim>\<open>provider.updateStatus('stopping')\<close> precedes the call of \<^verbatim>\<open>stopCrc\<close>.
\<close>

theorem lifecycle_status_first:
  "(\<exists>s0. providerStatus s0 = Starting \<and> events s0 = events s @ [UpdateStatus Starting] \<and>
         providerLifecycle_start env s = awaited (startCrc env s0) \<and>
         connectionLifecycle_start env s = awaited (startCrc env s0)) \<and>
   (\<forall>r s'. providerLifecycle_start env s = Some (r, s') \<longrightarrow>
      (\<exists>evs. events s' = events s @ UpdateStatus Starting # LogUsage ''crc.start'' # evs)) \<and>
   (\<forall>r s'. connectionLifecycle_start env s = Some (r, s') \<longrightarrow>
      (\<exists>evs. events s' = events s @ UpdateStatus Starting # LogUsage ''crc.start'' # evs)) \<and>
   events (snd (providerLifecycle_stop env s)) = events s @ [UpdateStatus Stopping, StopCrc] \<and>
   events (snd (connectionLifecycle_stop env s)) = events s @ [UpdateStatus Stopping, StopCrc]"
proof (intro conjI allI impI)
  show "\<exists>s0. providerStatus s0 = Starting \<and> events s0 = events s @ [UpdateStatus Starting] \<and>
         providerLifecycle_start env s = awaited (startCrc env s0) \<and>
         connectionLifecycle_start env s = awaited (startCrc env s0)"
    by (rule exI [of _ "updateStatus Starting s"])
       (simp add: providerLifecycle_start_def connectionLifecycle_start_def prim_defs)
next
  fix r s' assume "providerLifecycle_start env s = Some (r, s')"
  then obtain w where "startCrc env (updateStatus Starting s) = Some (w, s')"
    unfolding providerLifecycle_start_def by (blast dest: awaited_Some)
  from startCrc_events [OF this]
  show "\<exists>evs. events s' = events s @ UpdateStatus Starting # LogUsage ''crc.start'' # evs"
    by (simp add: prim_defs)
next
  fix r s' assume "connectionLifecycle_start env s = Some (r, s')"
  then obtain w where "startCrc env (updateStatus Starting s) = Some (w, s')"
    unfolding connectionLifecycle_start_def by (blast dest: awaited_Some)
  from startCrc_events [OF this]
  show "\<exists>evs. events s' = events s @ UpdateStatus Starting # LogUsage ''crc.start'' # evs"
    by (simp add: prim_defs)
next
  show "events (snd (providerLifecycle_stop env s)) = events s @ [UpdateStatus Stopping, StopCrc]"
    by (simp add: providerLifecycle_stop_def stopCrc_def prim_defs split: option.splits)
next
  show "events (snd (connectionLifecycle_stop env s)) = events s @ [UpdateStatus Stopping, StopCrc]"
    by (simp add: connectionLifecycle_stop_def stopCrc_def prim_defs split: option.splits)
qed

theorem lifecycle_status_first_witness:
  "providerLifecycle_start example_env example_state =
     Some (Inr (), example_state\<lparr>providerStatus := Started,
             events := [UpdateStatus Starting, LogUsage ''crc.start'', StartSendingLogs, CommanderStart,
                        UpdateStatus Started]\<rparr>) \<and>
   connectionLifecycle_start example_env example_state =
     Some (Inr (), example_state\<lparr>providerStatus := Started,
             events := [UpdateStatus Starting, LogUsage ''crc.start'', StartSendingLogs, CommanderStart,
                        UpdateStatus Started]\<rparr>) \<and>
   (\<exists>evs. [UpdateStatus Starting, LogUsage ''crc.start'', StartSendingLogs, CommanderStart,
            UpdateStatus Started] = UpdateStatus Starting # LogUsage ''crc.start'' # evs)"
  using lifecycle_status_first [of example_state example_env] example_run
  by (simp add: providerLifecycle_start_def connectionLifecycle_start_def awaited_def example_state_def)

text \<open>
  C7. When \<^verbatim>\<open>commander.configGet()\<close> throws, \<^verbatim>\<open>readPreset\<close> writes the error to the
  console and returns the preset \<^verbatim>\<open>openshift\<close>. \<^verbatim>\<open>readPreset\<close> has no way to throw:
  its result is always a preset and a state.
\<close>

theorem readPreset_default:
  "configGet_answer env (events s) = Inl err \<Longrightarrow>
     readPreset env s =
       (''openshift'', s\<lparr>events := events s @ [CommanderConfigGet, ConsoleLog ''error while getting preset'' err]\<rparr>)"
  by (simp add: readPreset_def prim_defs)

theorem readPreset_default_witness:
  "readPreset (example_env\<lparr>configGet_answer := (\<lambda>h. Inl (new_Error ''connect ENOENT''))\<rparr>) example_state =
     (''openshift'',
      example_state\<lparr>events := [CommanderConfigGet,
         ConsoleLog ''error while getting preset'' (new_Error ''connect ENOENT'')]\<rparr>)"
  using readPreset_default [of "example_env\<lparr>configGet_answer := (\<lambda>h. Inl (new_Error ''connect ENOENT''))\<rparr>"
      example_state "new_Error ''connect ENOENT''"]
  by (simp add: example_state_def)

text \<open>
  C10. When the daemon status held by \<^verbatim>\<open>crcStatus\<close> is neither \<^verbatim>\<open>No Cluster\<close> nor
  \<^verbatim>\<open>Need Setup\<close>, \<^verbatim>\<open>createCrcVm\<close> returns at once and leaves the state as it was: no
  setup, no start, no command and no connection is recorded.
\<close>

theorem createCrcVm_existing_instance:
  "CrcStatus s \<noteq> ''No Cluster'' \<Longrightarrow> CrcStatus s \<noteq> ''Need Setup'' \<Longrightarrow> createCrcVm env s = Some (Inr (), s)"
  by (simp add: createCrcVm_def)

theorem createCrcVm_existing_instance_witness:
  "createCrcVm example_env example_state = Some (Inr (), example_state)"
  using createCrcVm_existing_instance [of example_state example_env]
  by (simp add: example_state_def)

section \<open>Properties of presetChanged\<close>

text \<open>
  C6 does not hold of the code, in two places.

  A podman container connection is never held in \<^verbatim>\<open>connectionDisposable\<close>:
  \<^verbatim>\<open>registerPodmanConnection\<close> keeps the disposable it gets in a local variable and in the
  subscriptions (lines 276 and 277), where \<^verbatim>\<open>registerOpenShiftLocalCluster\<close> assigns it
  to \<^verbatim>\<open>connectionDisposable\<close> (line 304). So lines 362 to 365 dispose nothing after a
  podman registration. With the socket present, two changes to \<^verbatim>\<open>podman\<close> in a row leave
  the container connections 0 and 1 registered together, with no \<^verbatim>\<open>dispose\<close> in the trace;
  and a change to \<^verbatim>\<open>podman\<close> followed by a change to \<^verbatim>\<open>openshift\<close> leaves the container
  connection 0 and the Kubernetes connection 1 registered together.

  And \<^verbatim>\<open>updateProviderVersionWithPreset\<close> reads \<^verbatim>\<open>crcVersion.version\<close> (line 349) without
  the guard of line 100: with \<^verbatim>\<open>crcVersion\<close> undefined, the preset \<^verbatim>\<open>podman\<close> and no
  socket, \<^verbatim>\<open>presetChanged\<close> throws a \<^verbatim>\<open>TypeError\<close>, and the absence of the socket is not
  logged.
\<close>

theorem presetChanged_two_bindings:
  "containerConnections (snd (presetChanged podman_socket_env
      (snd (presetChanged podman_socket_env example_state)))) = {0, 1} \<and>
   events (snd (presetChanged podman_socket_env (snd (presetChanged podman_socket_env example_state)))) =
     [CommanderConfigGet, UpdateVersion ''2.18.0 (podman)'', ShowInformationMessage podmanNotice,
      RegisterContainerProviderConnection ''/home/user/.crc/machines/crc/docker.sock'' 0,
      CommanderConfigGet, UpdateVersion ''2.18.0 (podman)'', ShowInformationMessage podmanNotice,
      RegisterContainerProviderConnection ''/home/user/.crc/machines/crc/docker.sock'' 1] \<and>
   containerConnections (snd (presetChanged switch_env (snd (presetChanged switch_env example_state)))) = {0} \<and>
   kubernetesConnections (snd (presetChanged switch_env (snd (presetChanged switch_env example_state)))) = {1} \<and>
   presetChanged podman_env (example_state\<lparr>crcVersion := None\<rparr>) =
     (Inl (TypeError ''undefined'' ''version''),
      example_state\<lparr>crcVersion := None, events := [CommanderConfigGet]\<rparr>)"
proof -
  have a: "presetChanged podman_socket_env example_state =
      (Inr (), example_state\<lparr>containerConnections := {0}, registrations := 1, subscriptions := [0],
         events := [CommanderConfigGet, UpdateVersion ''2.18.0 (podman)'', ShowInformationMessage podmanNotice,
           RegisterContainerProviderConnection ''/home/user/.crc/machines/crc/docker.sock'' 0]\<rparr>)"
    by (simp add: presetChanged_def presetChanged_resume_def readPreset_def
          updateProviderVersionWithPreset_def disposeConnection_def registerPodmanConnection_def
          socketPath_def podman_socket_env_def example_env_def example_state_def prim_defs Let_def)
  have b: "snd (presetChanged podman_socket_env
      (example_state\<lparr>containerConnections := {0}, registrations := 1, subscriptions := [0],
         events := [CommanderConfigGet, UpdateVersion ''2.18.0 (podman)'', ShowInformationMessage podmanNotice,
           RegisterContainerProviderConnection ''/home/user/.crc/machines/crc/docker.sock'' 0]\<rparr>)) =
      example_state\<lparr>containerConnections := {0, 1}, registrations := 2, subscriptions := [0, 1],
         events := [CommanderConfigGet, UpdateVersion ''2.18.0 (podman)'', ShowInformationMessage podmanNotice,
           RegisterContainerProviderConnection ''/home/user/.crc/machines/crc/docker.sock'' 0,
           CommanderConfigGet, UpdateVersion ''2.18.0 (podman)'', ShowInformationMessage podmanNotice,
           RegisterContainerProviderConnection ''/home/user/.crc/machines/crc/docker.sock'' 1]\<rparr>"
    by (simp add: presetChanged_def presetChanged_resume_def readPreset_def
          updateProviderVersionWithPreset_def disposeConnection_def registerPodmanConnection_def
          socketPath_def podman_socket_env_def example_env_def example_state_def prim_defs Let_def
          insert_commute numeral_2_eq_2)
  have c: "containerConnections (snd (presetChanged switch_env (snd (presetChanged switch_env example_state)))) = {0} \<and>
   kubernetesConnections (snd (presetChanged switch_env (snd (presetChanged switch_env example_state)))) = {1}"
    by (simp add: presetChanged_def presetChanged_resume_def readPreset_def
          updateProviderVersionWithPreset_def disposeConnection_def registerPodmanConnection_def
          registerOpenShiftLocalCluster_def switch_env_def example_env_def example_state_def
          prim_defs Let_def)
  have d: "presetChanged podman_env (example_state\<lparr>crcVersion := None\<rparr>) =
     (Inl (TypeError ''undefined'' ''version''),
      example_state\<lparr>crcVersion := None, events := [CommanderConfigGet]\<rparr>)"
    by (simp add: presetChanged_def presetChanged_resume_def readPreset_def
          updateProviderVersionWithPreset_def podman_env_def example_env_def example_state_def prim_defs)
  show ?thesis
    unfolding a snd_conv b using c d by (simp add: example_state_def)
qed

end
